theory Spec2Isabelle
  imports Complex_Main "HOL-Library.Sublist"
begin

section \<open>JavaScript values\<close>

text \<open>
  The application is one class, \<open>AppleTVWeatherApp\<close> (js/main.js). Its methods mutate the
  fields of the single instance and the browser environment (document, local storage,
  console, timers, network). The embedding threads one record, \<open>world\<close>, through every
  method. A method that can throw returns a \<open>completion\<close>, which keeps the state reached
  at the point of the throw: in JavaScript the assignments made before an exception stay.
\<close>

datatype js_error =
    TypeError                  \<comment> \<open>property access on \<open>null\<close> or \<open>undefined\<close>\<close>
  | StorageError               \<comment> \<open>what \<open>localStorage\<close> throws when it is unavailable\<close>
  | WeatherApiRequestFailed    \<comment> \<open>\<open>new Error('Weather API request failed')\<close>\<close>
  | FetchRejected              \<comment> \<open>the promise of \<open>fetch\<close> rejects\<close>
  | JsonRejected               \<comment> \<open>the promise of \<open>response.json()\<close> rejects\<close>

text \<open>A JSON number as the forecast arrays hold it, \<open>null\<close>, or the \<open>undefined\<close> of a read
  past the end of an array.\<close>

datatype jsnum = Num real | Null | Undefined

text \<open>\<open>xs[i]\<close>: \<open>undefined\<close> (here \<open>None\<close>) outside \<open>0 .. length - 1\<close>.\<close>

definition js_at :: "'a list \<Rightarrow> int \<Rightarrow> 'a option" where
  "js_at xs i = (if 0 \<le> i \<and> i < int (length xs) then Some (xs ! nat i) else None)"

definition js_num_at :: "jsnum list \<Rightarrow> int \<Rightarrow> jsnum" where
  "js_num_at xs i = (case js_at xs i of None \<Rightarrow> Undefined | Some v \<Rightarrow> v)"

text \<open>\<open>xs.slice(start, end)\<close> on integer arguments: a negative bound counts from the end,
  both bounds are cut to the array.\<close>

definition js_slice :: "'a list \<Rightarrow> int \<Rightarrow> int \<Rightarrow> 'a list" where
  "js_slice xs start end =
     (let n = int (length xs);
          k = (if start < 0 then max (n + start) 0 else min start n);
          final = (if end < 0 then max (n + end) 0 else min end n)
      in take (nat (final - k)) (drop (nat k) xs))"

text \<open>\<open>v === 0\<close> and \<open>v <= c\<close> on a forecast value: \<open>null\<close> converts to 0 in a
  comparison, \<open>undefined\<close> to NaN, which compares false.\<close>

fun js_strict_eq :: "jsnum \<Rightarrow> real \<Rightarrow> bool" where
  "js_strict_eq (Num v) c = (v = c)"
| "js_strict_eq Null c = False"
| "js_strict_eq Undefined c = False"

fun js_le :: "jsnum \<Rightarrow> real \<Rightarrow> bool" where
  "js_le (Num v) c = (v \<le> c)"
| "js_le Null c = (0 \<le> c)"
| "js_le Undefined c = False"

section \<open>The document\<close>

text \<open>
  The page (index.html) is not part of the sources, so the document is an input. It is the
  list of its elements in tree order (the order of \<open>querySelectorAll\<close>), each with its
  depth in the tree: the descendants of an element are the elements after it that are
  deeper, up to the first that is not. An element reference is the position in this list.
  The application never inserts or removes an element; what it writes with
  \<open>textContent\<close> and \<open>innerHTML\<close> is recorded as the content of the element written,
  which is taken to hold text only.
\<close>

type_synonym node = nat

datatype content =
    PageContent                \<comment> \<open>what the page came with\<close>
  | Text string                \<comment> \<open>a city name\<close>
  | Celsius jsnum              \<comment> \<open>\<open>Math.round(v)\<close> followed by the Celsius sign\<close>
  | Percent jsnum              \<comment> \<open>\<open>`${v}%`\<close>\<close>
  | MetresPerSecond jsnum      \<comment> \<open>\<open>`${v} m/s`\<close>\<close>
  | Millimetres jsnum          \<comment> \<open>\<open>`${v} mm`\<close>\<close>
  | LastUpdate string          \<comment> \<open>the "last update" label followed by the time string\<close>
  | LoadFailedHtml             \<comment> \<open>the two-line message of \<open>showError\<close> in \<open>loadWeatherData\<close>\<close>

record element =
  el_depth :: nat
  el_tag :: string
  el_id :: string
  el_classes :: "string list"
  el_dataCity :: "string option"     \<comment> \<open>\<open>dataset.city\<close>, \<open>None\<close> for \<open>undefined\<close>\<close>
  el_disabled :: bool                \<comment> \<open>a form control with the \<open>disabled\<close> attribute\<close>
  el_hidden :: bool                  \<comment> \<open>not rendered (\<open>hidden\<close> attribute)\<close>
  el_content :: content

type_synonym dom = "element list"

definition getElementById :: "dom \<Rightarrow> string \<Rightarrow> node option" where
  "getElementById d i = List.find (\<lambda>n. el_id (d ! n) = i) [0..<length d]"

definition querySelectorAll_class :: "dom \<Rightarrow> string \<Rightarrow> node list" where
  "querySelectorAll_class d c = filter (\<lambda>n. c \<in> set (el_classes (d ! n))) [0..<length d]"

definition descendants :: "dom \<Rightarrow> node \<Rightarrow> node list" where
  "descendants d n =
     map (\<lambda>k. Suc n + k)
       [0..<length (takeWhile (\<lambda>e. el_depth (d ! n) < el_depth e) (drop (Suc n) d))]"

text \<open>\<open>el.querySelector(tag)\<close>: the first descendant with that tag name.\<close>

definition querySelector_tag :: "dom \<Rightarrow> node \<Rightarrow> string \<Rightarrow> node option" where
  "querySelector_tag d n t = List.find (\<lambda>k. el_tag (d ! k) = t) (descendants d n)"

text \<open>The ancestors of an element, nearest first: scanning backwards, each element that is
  less deep than the last one found.\<close>

fun path_up :: "dom \<Rightarrow> nat \<Rightarrow> nat \<Rightarrow> node list" where
  "path_up d 0 dep = []"
| "path_up d (Suc k) dep =
     (if el_depth (d ! k) < dep then k # path_up d k (el_depth (d ! k)) else path_up d k dep)"

definition ancestors :: "dom \<Rightarrow> node \<Rightarrow> node list" where
  "ancestors d n = path_up d n (el_depth (d ! n))"

definition classList_add :: "string \<Rightarrow> element \<Rightarrow> element" where
  "classList_add c e =
     (if c \<in> set (el_classes e) then e else e\<lparr>el_classes := el_classes e @ [c]\<rparr>)"

definition classList_remove :: "string \<Rightarrow> element \<Rightarrow> element" where
  "classList_remove c e = e\<lparr>el_classes := removeAll c (el_classes e)\<rparr>"

text \<open>\<open>classList.toggle(c, force)\<close>.\<close>

definition classList_toggle :: "string \<Rightarrow> bool \<Rightarrow> element \<Rightarrow> element" where
  "classList_toggle c force e = (if force then classList_add c e else classList_remove c e)"

definition update_node :: "node \<Rightarrow> (element \<Rightarrow> element) \<Rightarrow> dom \<Rightarrow> dom" where
  "update_node n f d = (if n < length d then d[n := f (d ! n)] else d)"

section \<open>Local storage, forecast data, chart\<close>

text \<open>\<open>localStorage\<close>: the items, and whether reading and writing work at all (a browser
  may refuse either: private mode, disabled storage, full quota).\<close>

record storage =
  st_readable :: bool
  st_writable :: bool
  st_items :: "string \<Rightarrow> string option"

definition getItem :: "storage \<Rightarrow> string \<Rightarrow> js_error + string option" where
  "getItem st k = (if st_readable st then Inr (st_items st k) else Inl StorageError)"

definition setItem :: "storage \<Rightarrow> string \<Rightarrow> string \<Rightarrow> js_error + storage" where
  "setItem st k v =
     (if st_writable st then Inr (st\<lparr>st_items := (st_items st)(k \<mapsto> v)\<rparr>)
      else Inl StorageError)"

text \<open>The response of the forecast service, as far as the application reads it:
  \<open>data.hourly\<close> (absent in a malformed answer) with its parallel arrays. An answer
  whose \<open>hourly\<close> lacks one of the arrays is not modelled.\<close>

record hourly_data =
  time :: "string list"
  temperature_2m :: "jsnum list"
  precipitation :: "jsnum list"
  relative_humidity_2m :: "jsnum list"
  wind_speed_10m :: "jsnum list"
  weather_code :: "jsnum list"

record forecast =
  hourly :: "hourly_data option"

datatype fetch_outcome =
    NetworkFailure             \<comment> \<open>\<open>fetch\<close> rejects\<close>
  | HttpError                  \<comment> \<open>\<open>response.ok\<close> is false\<close>
  | BadJson                    \<comment> \<open>\<open>response.json()\<close> rejects\<close>
  | Json forecast

text \<open>The query of the request URL.\<close>

record request =
  latitude :: real
  longitude :: real
  past_hours :: int
  forecast_hours :: int

text \<open>What \<open>drawChart\<close> hands to the chart library: the labels, the four data sets as
  points, and the position of the "now" line. The styling options are constants and are
  left out.\<close>

record point =
  pt_x :: "string option"
  pt_y :: jsnum

record chart_config =
  labels :: "string list"
  past_temperature :: "point list"
  future_temperature :: "point list"
  past_precipitation :: "point list"
  future_precipitation :: "point list"
  currentTime_line :: "string option"

record chart_instance =
  config :: chart_config
  destroyed :: bool

record city =
  name :: string
  lat :: real
  lon :: real

datatype handler =
    ToggleCityDropdown         \<comment> \<open>\<open>() => this.toggleCityDropdown()\<close>\<close>
  | SelectCityOf node          \<comment> \<open>\<open>() => this.selectCity(option.dataset.city)\<close>\<close>
  | SetTimeRange int           \<comment> \<open>\<open>() => this.setTimeRange(24)\<close>, \<open>(48)\<close>\<close>
  | LoadWeatherData            \<comment> \<open>\<open>() => this.loadWeatherData()\<close>\<close>

datatype log_entry =
    LogInitializing
  | LogInitialized
  | LogAutoRefreshing
  | WarnCouldNotSave js_error
  | WarnCouldNotLoad js_error
  | ErrorLoadingWeather js_error
  | Uncaught js_error          \<comment> \<open>an exception leaving an event listener or timer callback\<close>
  | UnhandledRejection js_error

section \<open>The state\<close>

record world =
  \<comment> \<open>the fields of the instance\<close>
  currentCity :: "string option"     \<comment> \<open>\<open>None\<close> for \<open>undefined\<close>\<close>
  currentTimeRange :: int
  focusableElements :: "node list"
  currentFocusIndex :: int
  isDropdownOpen :: bool
  weatherData :: "forecast option"
  chart :: "chart_instance option"
  autoRefreshInterval :: "nat option"
  \<comment> \<open>the browser\<close>
  document :: dom
  activeElement :: "node option"
  keydownListener :: bool
  listeners :: "(node \<times> handler) list"
  focusTimeout :: bool               \<comment> \<open>the \<open>setTimeout\<close> of \<open>setupEventListeners\<close> is pending\<close>
  timerIds :: nat                    \<comment> \<open>timers created so far\<close>
  localStorage :: storage
  console :: "log_entry list"
  requests :: "request list"         \<comment> \<open>the requests sent\<close>
  inFlight :: nat                    \<comment> \<open>calls of \<open>loadWeatherData\<close> waiting for their response\<close>

datatype completion = Normal world | Throw js_error world

fun state_of :: "completion \<Rightarrow> world" where
  "state_of (Normal w) = w"
| "state_of (Throw e w) = w"

fun returns :: "completion \<Rightarrow> bool" where
  "returns (Normal w) = True"
| "returns (Throw e w) = False"

text \<open>Sequencing: a throw skips the rest.\<close>

fun then_do :: "completion \<Rightarrow> (world \<Rightarrow> completion) \<Rightarrow> completion" where
  "then_do (Normal w) f = f w"
| "then_do (Throw e w) f = Throw e w"

text \<open>\<open>try { body } catch (e) { handler }\<close>.\<close>

fun try_catch :: "completion \<Rightarrow> (js_error \<Rightarrow> world \<Rightarrow> completion) \<Rightarrow> completion" where
  "try_catch (Normal w) h = Normal w"
| "try_catch (Throw e w) h = h e w"

definition console_add :: "log_entry \<Rightarrow> world \<Rightarrow> world" where
  "console_add l w = w\<lparr>console := console w @ [l]\<rparr>"

text \<open>An operation on the element with a given id; \<open>getElementById\<close> gives \<open>null\<close> when
  there is none, and the property access throws.\<close>

definition with_element :: "string \<Rightarrow> (element \<Rightarrow> element) \<Rightarrow> world \<Rightarrow> completion" where
  "with_element i f w =
     (case getElementById (document w) i of
        None \<Rightarrow> Throw TypeError w
      | Some n \<Rightarrow> Normal (w\<lparr>document := update_node n f (document w)\<rparr>))"

definition set_textContent :: "string \<Rightarrow> content \<Rightarrow> world \<Rightarrow> completion" where
  "set_textContent i c w = with_element i (\<lambda>e. e\<lparr>el_content := c\<rparr>) w"

section \<open>Keyboard navigation\<close>

definition updateFocusableElements :: "world \<Rightarrow> world" where
  "updateFocusableElements w =
     (let found =
        (if isDropdownOpen w
         then map Some (querySelectorAll_class (document w) ''city-option'')
         else [getElementById (document w) ''citySelector'',
               getElementById (document w) ''range24h'',
               getElementById (document w) ''range48h''])
      in w\<lparr>focusableElements := map the (filter (\<lambda>el. el \<noteq> None) found)\<rparr>)"

text \<open>\<open>el.blur()\<close> and \<open>el.focus()\<close>: an element that is disabled or not rendered does not
  take the input focus. \<open>scrollIntoView\<close> moves the viewport, which is not part of the
  state.\<close>

definition blur :: "node \<Rightarrow> world \<Rightarrow> world" where
  "blur el w = (if activeElement w = Some el then w\<lparr>activeElement := None\<rparr> else w)"

definition focus :: "node \<Rightarrow> world \<Rightarrow> world" where
  "focus el w =
     (if el < length (document w) \<and> \<not> el_disabled (document w ! el) \<and> \<not> el_hidden (document w ! el)
      then w\<lparr>activeElement := Some el\<rparr> else w)"

definition at_node :: "node \<Rightarrow> (element \<Rightarrow> element) \<Rightarrow> world \<Rightarrow> world" where
  "at_node el f w = w\<lparr>document := update_node el f (document w)\<rparr>"

definition focusElement :: "int \<Rightarrow> world \<Rightarrow> completion" where
  "focusElement index w =
     (if length (focusableElements w) = 0 then Normal w
      else
        let w1 = fold (\<lambda>el w. blur el (at_node el (classList_remove ''focused'') w))
                   (focusableElements w) w;
            w2 = w1\<lparr>currentFocusIndex :=
                      max 0 (min index (int (length (focusableElements w1)) - 1))\<rparr>
        in case js_at (focusableElements w2) (currentFocusIndex w2) of
             None \<Rightarrow> Throw TypeError w2
           | Some element \<Rightarrow> Normal (focus element (at_node element (classList_add ''focused'') w2)))"

definition focusNext :: "world \<Rightarrow> completion" where
  "focusNext w = focusElement (currentFocusIndex w + 1) w"

definition focusPrevious :: "world \<Rightarrow> completion" where
  "focusPrevious w = focusElement (currentFocusIndex w - 1) w"

section \<open>City selection\<close>

definition toggleCityDropdown :: "world \<Rightarrow> completion" where
  "toggleCityDropdown w =
     (let w1 = w\<lparr>isDropdownOpen := \<not> isDropdownOpen w\<rparr>
      in if isDropdownOpen w1
         then then_do (with_element ''cityDropdown'' (classList_add ''active'') w1)
                (\<lambda>w2. focusElement 0 (updateFocusableElements w2))
         else then_do (with_element ''cityDropdown'' (classList_remove ''active'') w1)
                (\<lambda>w2. focusElement 0 (updateFocusableElements w2)))"

definition closeDropdown :: "world \<Rightarrow> completion" where
  "closeDropdown w =
     (if isDropdownOpen w
      then then_do (with_element ''cityDropdown'' (classList_remove ''active'')
                      (w\<lparr>isDropdownOpen := False\<rparr>))
             (\<lambda>w2. focusElement 0 (updateFocusableElements w2))
      else Normal w)"

section \<open>Local storage\<close>

text \<open>\<open>localStorage.setItem\<close> stores the string of its argument: \<open>"undefined"\<close> for
  \<open>undefined\<close>.\<close>

definition to_string :: "string option \<Rightarrow> string" where
  "to_string v = (case v of None \<Rightarrow> ''undefined'' | Some s \<Rightarrow> s)"

definition saveCity :: "string option \<Rightarrow> world \<Rightarrow> completion" where
  "saveCity cityKey w =
     try_catch
       (case setItem (localStorage w) ''appleTV_selectedCity'' (to_string cityKey) of
          Inl e \<Rightarrow> Throw e w
        | Inr st \<Rightarrow> Normal (w\<lparr>localStorage := st\<rparr>))
       (\<lambda>e w. Normal (console_add (WarnCouldNotSave e) w))"

text \<open>\<open>loadSavedCity\<close> returns a value: the saved string, or \<open>null\<close> (\<open>None\<close>). Its
  result is the pair of that value and the state.\<close>

datatype 'a returned = Returned 'a world | Thrown js_error world

definition loadSavedCity :: "world \<Rightarrow> (string option) returned" where
  "loadSavedCity w =
     (case getItem (localStorage w) ''appleTV_selectedCity'' of
        Inr saved \<Rightarrow> Returned saved w
      | Inl e \<Rightarrow> Returned None (console_add (WarnCouldNotLoad e) w))"

section \<open>Weather data\<close>

definition cities :: "(string \<times> city) list" where
  "cities =
     [(''tokyo'', \<lparr>name = [CHR 0xE6, CHR 0x9D, CHR 0xB1, CHR 0xE4, CHR 0xBA, CHR 0xAC],
          lat = 35.6762, lon = 139.6503\<rparr>),
      (''osaka'', \<lparr>name = [CHR 0xE5, CHR 0xA4, CHR 0xA7, CHR 0xE9, CHR 0x98, CHR 0xAA],
          lat = 34.6937, lon = 135.5023\<rparr>),
      (''nagoya'', \<lparr>name = [CHR 0xE5, CHR 0x90, CHR 0x8D, CHR 0xE5, CHR 0x8F, CHR 0xA4,
                            CHR 0xE5, CHR 0xB1, CHR 0x8B],
          lat = 35.1815, lon = 136.9066\<rparr>),
      (''sapporo'', \<lparr>name = [CHR 0xE6, CHR 0x9C, CHR 0xAD, CHR 0xE5, CHR 0xB9, CHR 0x8C],
          lat = 43.0642, lon = 141.3469\<rparr>),
      (''fukuoka'', \<lparr>name = [CHR 0xE7, CHR 0xA6, CHR 0x8F, CHR 0xE5, CHR 0xB2, CHR 0xA1],
          lat = 33.5904, lon = 130.4017\<rparr>),
      (''sendai'', \<lparr>name = [CHR 0xE4, CHR 0xBB, CHR 0x99, CHR 0xE5, CHR 0x8F, CHR 0xB0],
          lat = 38.2682, lon = 140.8694\<rparr>),
      (''hiroshima'', \<lparr>name = [CHR 0xE5, CHR 0xBA, CHR 0x83, CHR 0xE5, CHR 0xB3, CHR 0xB6],
          lat = 34.3853, lon = 132.4553\<rparr>),
      (''kyoto'', \<lparr>name = [CHR 0xE4, CHR 0xBA, CHR 0xAC, CHR 0xE9, CHR 0x83, CHR 0xBD],
          lat = 35.0116, lon = 135.7681\<rparr>),
      (''naha'', \<lparr>name = [CHR 0xE9, CHR 0x82, CHR 0xA3, CHR 0xE8, CHR 0xA6, CHR 0x87],
          lat = 26.2124, lon = 127.6809\<rparr>),
      (''okayama'', \<lparr>name = [CHR 0xE5, CHR 0xB2, CHR 0xA1, CHR 0xE5, CHR 0xB1, CHR 0xB1],
          lat = 34.6551, lon = 133.9195\<rparr>)]"

text \<open>\<open>this.cities[key]\<close>, with the names as their UTF-8 bytes. A key that is not one of
  the ten gives \<open>undefined\<close> (the properties an object inherits are not modelled).\<close>

definition cities_at :: "string option \<Rightarrow> city option" where
  "cities_at key = map_of cities (to_string key)"

definition showLoading :: "bool \<Rightarrow> world \<Rightarrow> completion" where
  "showLoading show w = with_element ''loadingOverlay'' (classList_toggle ''active'' show) w"

definition showError :: "content \<Rightarrow> world \<Rightarrow> completion" where
  "showError message w =
     (let errorEl = getElementById (document w) ''errorMessage''
      in then_do (set_textContent ''errorText'' message w)
           (\<lambda>w1. case errorEl of
                    None \<Rightarrow> Throw TypeError w1
                  | Some n \<Rightarrow> Normal (at_node n (classList_add ''active'') w1)))"

definition hideError :: "world \<Rightarrow> completion" where
  "hideError w = with_element ''errorMessage'' (classList_remove ''active'') w"

text \<open>\<open>iconElement.className = iconClass\<close> replaces the class list by the two classes of
  the string.\<close>

definition updateWeatherIcon :: "jsnum \<Rightarrow> world \<Rightarrow> completion" where
  "updateWeatherIcon weatherCode w =
     (case getElementById (document w) ''weatherIcon'' of
        None \<Rightarrow> Throw TypeError w
      | Some icon \<Rightarrow>
          let iconElement = querySelector_tag (document w) icon ''i'';
              iconClass =
                (if js_strict_eq weatherCode 0 then [''fas'', ''fa-sun'']
                 else if js_le weatherCode 3 then [''fas'', ''fa-cloud-sun'']
                 else if js_le weatherCode 48 then [''fas'', ''fa-cloud'']
                 else if js_le weatherCode 67 then [''fas'', ''fa-cloud-rain'']
                 else if js_le weatherCode 77 then [''fas'', ''fa-snowflake'']
                 else if js_le weatherCode 82 then [''fas'', ''fa-cloud-showers-heavy'']
                 else [''fas'', ''fa-bolt''])
          in case iconElement of
               None \<Rightarrow> Throw TypeError w
             | Some n \<Rightarrow> Normal (at_node n (\<lambda>e. e\<lparr>el_classes := iconClass\<rparr>) w))"

definition updateCurrentWeather :: "forecast \<Rightarrow> world \<Rightarrow> completion" where
  "updateCurrentWeather data w =
     (case hourly data of
        None \<Rightarrow> Throw TypeError w
      | Some h \<Rightarrow>
          let currentIndex = 24;
              currentTemp = js_num_at (temperature_2m h) currentIndex;
              currentHumidity = js_num_at (relative_humidity_2m h) currentIndex;
              currentWindSpeed = js_num_at (wind_speed_10m h) currentIndex;
              currentPrecipitation = js_num_at (precipitation h) currentIndex;
              weatherCode = js_num_at (weather_code h) currentIndex
          in then_do (set_textContent ''currentTemp'' (Celsius currentTemp) w)
               (\<lambda>w1. then_do (set_textContent ''humidity'' (Percent currentHumidity) w1)
               (\<lambda>w2. then_do (set_textContent ''windSpeed'' (MetresPerSecond currentWindSpeed) w2)
               (\<lambda>w3. then_do (set_textContent ''precipitation'' (Millimetres currentPrecipitation) w3)
               (\<lambda>w4. updateWeatherIcon weatherCode w4)))))"

text \<open>The time string comes from the clock (\<open>new Date()\<close>) and is an input.\<close>

definition updateLastUpdateTime :: "string \<Rightarrow> world \<Rightarrow> completion" where
  "updateLastUpdateTime timeString w = set_textContent ''lastUpdate'' (LastUpdate timeString) w"

section \<open>Chart drawing\<close>

text \<open>\<open>values.map((v, i) => ({ x: times[i], y: v }))\<close>.\<close>

definition points :: "string list \<Rightarrow> jsnum list \<Rightarrow> point list" where
  "points times' values =
     map (\<lambda>i. \<lparr>pt_x = js_at times' (int i), pt_y = values ! i\<rparr>) [0..<length values]"

text \<open>\<open>allTemps\<close> and \<open>allPrecip\<close> of the source are computed and never used; only
  \<open>allTimes\<close> reaches the chart.\<close>

definition drawChart :: "world \<Rightarrow> completion" where
  "drawChart w =
     (case weatherData w of
        None \<Rightarrow> Throw TypeError w
      | Some data \<Rightarrow>
     (case hourly data of
        None \<Rightarrow> Throw TypeError w
      | Some h \<Rightarrow>
          let times' = time h;
              temps = temperature_2m h;
              precip = precipitation h;
              currentIndex = 24;
              pastTimes = js_slice times' 0 (currentIndex + 1);
              futureTimes = js_slice times' currentIndex (currentIndex + currentTimeRange w + 1);
              pastTemps = js_slice temps 0 (currentIndex + 1);
              futureTemps = js_slice temps currentIndex (currentIndex + currentTimeRange w + 1);
              pastPrecip = js_slice precip 0 (currentIndex + 1);
              futurePrecip = js_slice precip currentIndex (currentIndex + currentTimeRange w + 1);
              allTimes = pastTimes @ js_slice futureTimes 1 (int (length futureTimes));
              w1 = (case chart w of
                      None \<Rightarrow> w
                    | Some c \<Rightarrow> w\<lparr>chart := Some (c\<lparr>destroyed := True\<rparr>)\<rparr>)
          in case getElementById (document w1) ''mainChart'' of
               None \<Rightarrow> Throw TypeError w1
             | Some ctx \<Rightarrow>
                 Normal (w1\<lparr>chart := Some
                   \<lparr>config =
                      \<lparr>labels = allTimes,
                       past_temperature = points pastTimes pastTemps,
                       future_temperature = points futureTimes futureTemps,
                       past_precipitation = points pastTimes pastPrecip,
                       future_precipitation = points futureTimes futurePrecip,
                       currentTime_line = js_at times' currentIndex\<rparr>,
                    destroyed = False\<rparr>\<rparr>)))"

section \<open>Loading\<close>

text \<open>
  \<open>loadWeatherData\<close> is an \<open>async\<close> function. \<open>loadWeatherData\<close> below is its part up to
  the \<open>fetch\<close>, which runs at the call; \<open>loadWeatherData_resume\<close> is the rest, which runs
  when the response has arrived (between the two \<open>await\<close>s nothing is written, so they
  are one step). A throw of either part rejects the promise the call returned: the
  caller goes on, and the browser reports the rejection.
\<close>

definition loadWeatherData_catch :: "js_error \<Rightarrow> world \<Rightarrow> completion" where
  "loadWeatherData_catch error w =
     then_do (showError LoadFailedHtml (console_add (ErrorLoadingWeather error) w))
       (\<lambda>w1. showLoading False w1)"

definition loadWeatherData :: "world \<Rightarrow> completion" where
  "loadWeatherData w =
     (let city = cities_at (currentCity w)
      in then_do (showLoading True w)
          (\<lambda>w1. then_do (hideError w1)
          (\<lambda>w2. try_catch
                  (case city of
                     None \<Rightarrow> Throw TypeError w2
                   | Some c \<Rightarrow>
                       Normal (w2\<lparr>requests := requests w2 @
                                   [\<lparr>latitude = lat c, longitude = lon c, past_hours = 24,
                                     forecast_hours = currentTimeRange w2\<rparr>],
                                 inFlight := Suc (inFlight w2)\<rparr>))
                  loadWeatherData_catch)))"

definition loadWeatherData_resume :: "fetch_outcome \<Rightarrow> string \<Rightarrow> world \<Rightarrow> completion" where
  "loadWeatherData_resume outcome now w =
     (let w0 = w\<lparr>inFlight := inFlight w - 1\<rparr>
      in try_catch
           (case outcome of
              NetworkFailure \<Rightarrow> Throw FetchRejected w0
            | HttpError \<Rightarrow> Throw WeatherApiRequestFailed w0
            | BadJson \<Rightarrow> Throw JsonRejected w0
            | Json data \<Rightarrow>
                then_do (updateCurrentWeather data (w0\<lparr>weatherData := Some data\<rparr>))
                  (\<lambda>w1. then_do (drawChart w1)
                  (\<lambda>w2. then_do (updateLastUpdateTime now w2)
                  (\<lambda>w3. showLoading False w3))))
           loadWeatherData_catch)"

definition call_async :: "completion \<Rightarrow> world" where
  "call_async c =
     (case c of Normal w \<Rightarrow> w | Throw e w \<Rightarrow> console_add (UnhandledRejection e) w)"

section \<open>Time range and city selection\<close>

definition setTimeRange :: "int \<Rightarrow> world \<Rightarrow> completion" where
  "setTimeRange hours w =
     then_do (with_element ''range24h'' (classList_toggle ''active'' (hours = 24))
                (w\<lparr>currentTimeRange := hours\<rparr>))
       (\<lambda>w1. then_do (with_element ''range48h'' (classList_toggle ''active'' (hours = 48)) w1)
       (\<lambda>w2. if weatherData w2 \<noteq> None then drawChart w2 else Normal w2))"

definition selectCity :: "string option \<Rightarrow> world \<Rightarrow> completion" where
  "selectCity cityKey w =
     then_do (saveCity cityKey (w\<lparr>currentCity := cityKey\<rparr>))
       (\<lambda>w1. then_do
                (case getElementById (document w1) ''selectedCity'' of
                   None \<Rightarrow> Throw TypeError w1
                 | Some n \<Rightarrow>
                     (case cities_at cityKey of
                        None \<Rightarrow> Throw TypeError w1
                      | Some c \<Rightarrow> Normal (at_node n (\<lambda>e. e\<lparr>el_content := Text (name c)\<rparr>) w1)))
       (\<lambda>w2. then_do (closeDropdown w2)
       (\<lambda>w3. Normal (call_async (loadWeatherData w3)))))"

section \<open>Events\<close>

definition run_handler :: "handler \<Rightarrow> world \<Rightarrow> completion" where
  "run_handler h w =
     (case h of
        ToggleCityDropdown \<Rightarrow> toggleCityDropdown w
      | SelectCityOf option \<Rightarrow>
          selectCity (if option < length (document w) then el_dataCity (document w ! option)
                      else None) w
      | SetTimeRange hours \<Rightarrow> setTimeRange hours w
      | LoadWeatherData \<Rightarrow> Normal (call_async (loadWeatherData w)))"

text \<open>An exception that leaves a listener is reported by the browser and goes no
  further.\<close>

definition listener_call :: "completion \<Rightarrow> world" where
  "listener_call c = (case c of Normal w \<Rightarrow> w | Throw e w \<Rightarrow> console_add (Uncaught e) w)"

text \<open>A click, by the mouse or by \<open>el.click()\<close>: nothing on a disabled control; otherwise
  the click listeners of the element run, then those of its ancestors, nearest first.\<close>

definition click_listeners :: "world \<Rightarrow> node \<Rightarrow> handler list" where
  "click_listeners w el =
     concat (map (\<lambda>n. map snd (filter (\<lambda>l. fst l = n) (listeners w)))
               (el # ancestors (document w) el))"

definition click :: "node \<Rightarrow> world \<Rightarrow> world" where
  "click el w =
     (if el < length (document w) \<and> el_disabled (document w ! el) then w
      else fold (\<lambda>h w1. listener_call (run_handler h w1)) (click_listeners w el) w)"

definition activateFocusedElement :: "world \<Rightarrow> completion" where
  "activateFocusedElement w =
     (case js_at (focusableElements w) (currentFocusIndex w) of
        None \<Rightarrow> Normal w
      | Some element \<Rightarrow> Normal (click element w))"

text \<open>\<open>e.preventDefault()\<close> concerns the browser's own reaction to the key and writes
  nothing of the state.\<close>

definition handleKeyDown :: "string \<Rightarrow> world \<Rightarrow> completion" where
  "handleKeyDown key w =
     (if key = ''ArrowRight'' \<or> key = ''ArrowDown'' then focusNext w
      else if key = ''ArrowLeft'' \<or> key = ''ArrowUp'' then focusPrevious w
      else if key = ''Enter'' \<or> key = '' '' then activateFocusedElement w
      else if key = ''Escape'' \<or> key = ''Backspace'' then closeDropdown w
      else Normal w)"

definition addEventListener_click :: "string \<Rightarrow> handler \<Rightarrow> world \<Rightarrow> completion" where
  "addEventListener_click i h w =
     (case getElementById (document w) i of
        None \<Rightarrow> Throw TypeError w
      | Some n \<Rightarrow> Normal (w\<lparr>listeners := listeners w @ [(n, h)]\<rparr>))"

definition setupEventListeners :: "world \<Rightarrow> completion" where
  "setupEventListeners w =
     then_do (addEventListener_click ''citySelector'' ToggleCityDropdown
                (w\<lparr>keydownListener := True\<rparr>))
       (\<lambda>w1. then_do
                (Normal (fold (\<lambda>option w2. w2\<lparr>listeners := listeners w2 @ [(option, SelectCityOf option)]\<rparr>)
                           (querySelectorAll_class (document w1) ''city-option'') w1))
       (\<lambda>w3. then_do (addEventListener_click ''range24h'' (SetTimeRange 24) w3)
       (\<lambda>w4. then_do (addEventListener_click ''range48h'' (SetTimeRange 48) w4)
       (\<lambda>w5. then_do (addEventListener_click ''retryBtn'' LoadWeatherData w5)
       (\<lambda>w6. Normal (w6\<lparr>focusTimeout := True, timerIds := Suc (timerIds w6)\<rparr>))))))"

section \<open>Auto refresh\<close>

definition startAutoRefresh :: "world \<Rightarrow> world" where
  "startAutoRefresh w =
     w\<lparr>autoRefreshInterval := Some (Suc (timerIds w)), timerIds := Suc (timerIds w)\<rparr>"

definition stopAutoRefresh :: "world \<Rightarrow> world" where
  "stopAutoRefresh w =
     (if autoRefreshInterval w \<noteq> None then w\<lparr>autoRefreshInterval := None\<rparr> else w)"

section \<open>Start\<close>

definition init :: "world \<Rightarrow> completion" where
  "init w =
     then_do (setupEventListeners (console_add LogInitializing w))
       (\<lambda>w1. let w2 = updateFocusableElements w1;
                  w3 = call_async (loadWeatherData w2);
                  w4 = startAutoRefresh w3
              in then_do
                   (case getElementById (document w4) ''selectedCity'' of
                      None \<Rightarrow> Throw TypeError w4
                    | Some n \<Rightarrow>
                        (case cities_at (currentCity w4) of
                           None \<Rightarrow> Throw TypeError w4
                         | Some c \<Rightarrow> Normal (at_node n (\<lambda>e. e\<lparr>el_content := Text (name c)\<rparr>) w4)))
                   (\<lambda>w5. Normal (console_add LogInitialized w5)))"

text \<open>The page before the script runs: a document and a local storage, nothing else. The
  fields of the instance get their values in the constructor.\<close>

definition page :: "dom \<Rightarrow> storage \<Rightarrow> world" where
  "page d st =
     \<lparr>currentCity = None, currentTimeRange = 0, focusableElements = [],
      currentFocusIndex = 0, isDropdownOpen = False, weatherData = None, chart = None,
      autoRefreshInterval = None,
      document = d, activeElement = None, keydownListener = False, listeners = [],
      focusTimeout = False, timerIds = 0, localStorage = st, console = [],
      requests = [], inFlight = 0\<rparr>"

text \<open>\<open>saved || 'tokyo'\<close>: \<open>null\<close> and the empty string are falsy.\<close>

definition or_tokyo :: "string option \<Rightarrow> string" where
  "or_tokyo saved = (case saved of None \<Rightarrow> ''tokyo'' | Some s \<Rightarrow> if s = [] then ''tokyo'' else s)"

definition constructor :: "dom \<Rightarrow> storage \<Rightarrow> completion" where
  "constructor d st =
     (case loadSavedCity (page d st) of
        Thrown e w \<Rightarrow> Throw e w
      | Returned saved w \<Rightarrow>
          init (w\<lparr>currentCity := Some (or_tokyo saved),
                  currentTimeRange := 24,
                  focusableElements := [],
                  currentFocusIndex := 0,
                  isDropdownOpen := False,
                  weatherData := None,
                  chart := None,
                  autoRefreshInterval := None\<rparr>))"

text \<open>What happens after the start: a key, a click on an element, the timeout set in
  \<open>setupEventListeners\<close>, a tick of the refresh interval, the arrival of a response (with
  the time of day then).\<close>

datatype event =
    KeyDown string
  | Click node
  | FocusTimeout
  | AutoRefreshTick
  | FetchSettled fetch_outcome string

definition step :: "event \<Rightarrow> world \<Rightarrow> world" where
  "step ev w =
     (case ev of
        KeyDown key \<Rightarrow> if keydownListener w then listener_call (handleKeyDown key w) else w
      | Click el \<Rightarrow> click el w
      | FocusTimeout \<Rightarrow>
          if focusTimeout w then listener_call (focusElement 0 (w\<lparr>focusTimeout := False\<rparr>)) else w
      | AutoRefreshTick \<Rightarrow>
          if autoRefreshInterval w \<noteq> None
          then call_async (loadWeatherData (console_add LogAutoRefreshing w)) else w
      | FetchSettled outcome now \<Rightarrow>
          if 0 < inFlight w then call_async (loadWeatherData_resume outcome now w) else w)"

fun run :: "event list \<Rightarrow> world \<Rightarrow> world" where
  "run [] w = w"
| "run (ev # evs) w = run evs (step ev w)"

inductive reachable :: "world \<Rightarrow> bool" where
  start: "reachable (state_of (constructor d st))"
| after: "reachable w \<Longrightarrow> reachable (step ev w)"

section \<open>Notions of the specification\<close>

text \<open>The navigation state of the specification: NavigationMode is \<open>isDropdownOpen\<close>,
  FocusIndex is \<open>currentFocusIndex\<close>, the FocusSet is \<open>focusableElements\<close>.\<close>

definition nav :: "world \<Rightarrow> bool \<times> int \<times> node list" where
  "nav w = (isDropdownOpen w, currentFocusIndex w, focusableElements w)"

text \<open>The FocusIndex is a position of the FocusSet, unless the set is empty.\<close>

definition focus_in_range :: "world \<Rightarrow> bool" where
  "focus_in_range w =
     (focusableElements w = [] \<or>
      (0 \<le> currentFocusIndex w \<and> currentFocusIndex w < int (length (focusableElements w))))"

text \<open>The element with id \<open>i\<close> exists and shows the content \<open>c\<close>.\<close>

definition displays :: "world \<Rightarrow> string \<Rightarrow> content \<Rightarrow> bool" where
  "displays w i c =
     (case getElementById (document w) i of
        None \<Rightarrow> False
      | Some n \<Rightarrow> el_content (document w ! n) = c)"

text \<open>Calling a command \<open>k\<close> times in a row.\<close>

fun repeat :: "nat \<Rightarrow> (world \<Rightarrow> completion) \<Rightarrow> world \<Rightarrow> completion" where
  "repeat 0 c w = Normal w"
| "repeat (Suc k) c w = then_do (c w) (repeat k c)"

text \<open>An element the user can interact with: neither disabled nor hidden.\<close>

definition interactable :: "element \<Rightarrow> bool" where
  "interactable e = (\<not> el_disabled e \<and> \<not> el_hidden e)"

section \<open>Example pages\<close>

definition button :: "string \<Rightarrow> element" where
  "button i =
     \<lparr>el_depth = 0, el_tag = ''button'', el_id = i, el_classes = [], el_dataCity = None,
      el_disabled = False, el_hidden = False, el_content = PageContent\<rparr>"

definition city_option :: "string \<Rightarrow> element" where
  "city_option c =
     \<lparr>el_depth = 1, el_tag = ''div'', el_id = [], el_classes = [''city-option''],
      el_dataCity = Some c, el_disabled = False, el_hidden = False, el_content = PageContent\<rparr>"

text \<open>The controls only.\<close>

definition controls_page :: dom where
  "controls_page =
     [button ''citySelector'', button ''range24h'', button ''range48h'', button ''retryBtn'']"

text \<open>The controls and a dropdown with two cities.\<close>

definition dropdown_page :: dom where
  "dropdown_page =
     [button ''citySelector'', button ''cityDropdown'', city_option ''tokyo'',
      city_option ''osaka'', button ''range24h'', button ''range48h'', button ''retryBtn'']"

text \<open>The controls and a dropdown that holds no city.\<close>

definition empty_dropdown_page :: dom where
  "empty_dropdown_page =
     [button ''citySelector'', button ''cityDropdown'', button ''range24h'',
      button ''range48h'', button ''retryBtn'']"

text \<open>The controls, the 48 hour button disabled.\<close>

definition disabled_page :: dom where
  "disabled_page =
     [button ''citySelector'', button ''range24h'',
      (button ''range48h'')\<lparr>el_disabled := True\<rparr>, button ''retryBtn'']"

text \<open>The elements that show the current weather, and the canvas of the chart.\<close>

definition part :: "nat \<Rightarrow> string \<Rightarrow> string \<Rightarrow> element" where
  "part dep t i =
     \<lparr>el_depth = dep, el_tag = t, el_id = i, el_classes = [], el_dataCity = None,
      el_disabled = False, el_hidden = False, el_content = PageContent\<rparr>"

definition display_page :: dom where
  "display_page =
     [part 0 ''div'' ''weatherIcon'',
      part 1 ''i'' [],
      part 0 ''span'' ''currentTemp'',
      part 0 ''span'' ''humidity'',
      part 0 ''span'' ''windSpeed'',
      part 0 ''span'' ''precipitation'',
      part 0 ''canvas'' ''mainChart'']"

definition empty_storage :: storage where
  "empty_storage = \<lparr>st_readable = True, st_writable = True, st_items = (\<lambda>k. None)\<rparr>"

definition unavailable_storage :: storage where
  "unavailable_storage = \<lparr>st_readable = False, st_writable = False, st_items = (\<lambda>k. None)\<rparr>"

text \<open>The page whose dropdown holds no city, started, after two presses of the right
  arrow: the third control has the focus.\<close>

definition third_control_focused :: world where
  "third_control_focused =
     run [KeyDown ''ArrowRight'', KeyDown ''ArrowRight'']
       (state_of (constructor empty_dropdown_page empty_storage))"

text \<open>A response with 27 hours: 24 past hours, the current hour and 2 hours ahead; and a
  state that holds it, with the 24 hour range.\<close>

definition sample_hourly :: hourly_data where
  "sample_hourly =
     \<lparr>time = replicate 24 ''past'' @ [''now'', ''next'', ''later''],
      temperature_2m = replicate 24 (Num 10) @ [Num 21, Num 22, Num 23],
      precipitation = replicate 24 (Num 0) @ [Num 1, Num 2, Null],
      relative_humidity_2m = replicate 24 (Num 50) @ [Num 61, Num 62, Num 63],
      wind_speed_10m = replicate 24 (Num 3) @ [Num 4, Num 5, Num 6],
      weather_code = replicate 24 (Num 0) @ [Num 61, Num 3, Num 0]\<rparr>"

definition sample_forecast :: forecast where
  "sample_forecast = \<lparr>hourly = Some sample_hourly\<rparr>"

definition sample_world :: world where
  "sample_world =
     (page display_page empty_storage)
       \<lparr>currentTimeRange := 24, weatherData := Some sample_forecast\<rparr>"

section \<open>Properties\<close>



lemma fold_keeps: "(\<And>x s. p (g x s) = p s) \<Longrightarrow> p (fold g xs s) = p s"
  by (induction xs arbitrary: s) simp_all

lemma state_of_then_do:
  "state_of (then_do c f) = (case c of Normal w \<Rightarrow> state_of (f w) | Throw e w \<Rightarrow> w)"
  by (cases c) simp_all

lemma keep_then_do:
  assumes "p (state_of c) = v" and "\<And>w'. p w' = v \<Longrightarrow> p (state_of (f w')) = v"
  shows "p (state_of (then_do c f)) = v"
  using assms by (cases c) simp_all

lemma keep_try_catch:
  assumes "p (state_of c) = v" and "\<And>e w'. p w' = v \<Longrightarrow> p (state_of (h e w')) = v"
  shows "p (state_of (try_catch c h)) = v"
  using assms by (cases c) simp_all

lemmas nav_then_do = keep_then_do [where p = nav]
lemmas nav_try_catch = keep_try_catch [where p = nav]

lemma nav_with_element: "nav (state_of (with_element i f w)) = nav w"
  by (simp add: with_element_def nav_def split: option.split)

lemma nav_set_textContent: "nav (state_of (set_textContent i c w)) = nav w"
  by (simp add: set_textContent_def nav_with_element)

lemma nav_at_node: "nav (at_node n f w) = nav w"
  by (simp add: at_node_def nav_def)

lemma nav_console_add: "nav (console_add l w) = nav w"
  by (simp add: console_add_def nav_def)

lemma nav_showLoading: "nav (state_of (showLoading b w)) = nav w"
  by (simp add: showLoading_def nav_with_element)

lemma nav_hideError: "nav (state_of (hideError w)) = nav w"
  by (simp add: hideError_def nav_with_element)

lemma nav_showError: "nav (state_of (showError m w)) = nav w"
  unfolding showError_def Let_def
  by (rule nav_then_do) (simp_all add: nav_set_textContent nav_at_node split: option.split)

lemma nav_updateWeatherIcon: "nav (state_of (updateWeatherIcon c w)) = nav w"
  by (simp add: updateWeatherIcon_def Let_def nav_at_node split: option.split)

lemma nav_updateCurrentWeather: "nav (state_of (updateCurrentWeather d w)) = nav w"
proof (cases "hourly d")
  case None
  then show ?thesis by (simp add: updateCurrentWeather_def)
next
  case (Some h)
  show ?thesis
    unfolding updateCurrentWeather_def Some option.case Let_def
    by (intro nav_then_do) (simp_all add: nav_set_textContent nav_updateWeatherIcon)
qed

lemma nav_updateLastUpdateTime: "nav (state_of (updateLastUpdateTime t w)) = nav w"
  by (simp add: updateLastUpdateTime_def nav_set_textContent)

lemma nav_drawChart: "nav (state_of (drawChart w)) = nav w"
  by (simp add: drawChart_def Let_def nav_def split: option.split)

lemma nav_loadWeatherData_catch: "nav (state_of (loadWeatherData_catch e w)) = nav w"
  unfolding loadWeatherData_catch_def
  by (rule nav_then_do) (simp_all add: nav_showError nav_console_add nav_showLoading)

lemma nav_loadWeatherData: "nav (state_of (loadWeatherData w)) = nav w"
  unfolding loadWeatherData_def Let_def
  apply (intro nav_then_do nav_try_catch)
     apply (simp_all add: nav_showLoading nav_hideError nav_loadWeatherData_catch)
  apply (simp add: nav_def split: option.split)
  done

lemma nav_update [simp]:
  "nav (w\<lparr>inFlight := a\<rparr>) = nav w"
  "nav (w\<lparr>weatherData := b\<rparr>) = nav w"
  "nav (w\<lparr>currentTimeRange := c\<rparr>) = nav w"
  "nav (w\<lparr>currentCity := d\<rparr>) = nav w"
  "nav (w\<lparr>localStorage := e\<rparr>) = nav w"
  "nav (w\<lparr>keydownListener := f\<rparr>) = nav w"
  "nav (w\<lparr>listeners := g\<rparr>) = nav w"
  "nav (w\<lparr>focusTimeout := h\<rparr>) = nav w"
  "nav (w\<lparr>timerIds := i\<rparr>) = nav w"
  "nav (w\<lparr>autoRefreshInterval := j\<rparr>) = nav w"
  by (simp_all add: nav_def)

lemma nav_loadWeatherData_resume: "nav (state_of (loadWeatherData_resume outcome now w)) = nav w"
  unfolding loadWeatherData_resume_def Let_def
proof (rule nav_try_catch)
  show "nav (state_of (case outcome of
          NetworkFailure \<Rightarrow> Throw FetchRejected (w\<lparr>inFlight := inFlight w - 1\<rparr>)
        | HttpError \<Rightarrow> Throw WeatherApiRequestFailed (w\<lparr>inFlight := inFlight w - 1\<rparr>)
        | BadJson \<Rightarrow> Throw JsonRejected (w\<lparr>inFlight := inFlight w - 1\<rparr>)
        | Json data \<Rightarrow>
            then_do (updateCurrentWeather data (w\<lparr>inFlight := inFlight w - 1, weatherData := Some data\<rparr>))
              (\<lambda>w1. then_do (drawChart w1)
              (\<lambda>w2. then_do (updateLastUpdateTime now w2)
              (\<lambda>w3. showLoading False w3))))) = nav w"
  proof (cases outcome)
    case (Json d)
    show ?thesis
      unfolding Json fetch_outcome.case
      by (intro nav_then_do)
        (simp_all add: nav_updateCurrentWeather nav_drawChart nav_updateLastUpdateTime
          nav_showLoading)
  qed simp_all
next
  fix e w'
  assume "nav w' = nav w"
  then show "nav (state_of (loadWeatherData_catch e w')) = nav w"
    by (simp add: nav_loadWeatherData_catch)
qed


lemma nav_call_async: "nav (call_async c) = nav (state_of c)"
  by (cases c) (simp_all add: call_async_def nav_console_add)

lemma nav_listener_call: "nav (listener_call c) = nav (state_of c)"
  by (cases c) (simp_all add: listener_call_def nav_console_add)

lemma nav_refresh_steps:
  "nav (step AutoRefreshTick w) = nav w"
  "nav (step (FetchSettled outcome now) w) = nav w"
  by (simp_all add: step_def nav_call_async nav_loadWeatherData nav_loadWeatherData_resume
      nav_console_add)

text \<open>
  Claim C7. A data refresh never alters the navigation state. Both parts of
  \<open>loadWeatherData\<close> (the part that runs at the call, and the part that runs when the
  response has arrived, whatever the response is), the tick of the refresh timer and the
  arrival of a response leave NavigationMode, FocusIndex and the FocusSet as they were, in
  every state, the overlay open or not, and also when the refresh throws.
\<close>

theorem refresh_keeps_navigation:
  "nav (state_of (loadWeatherData w)) = nav w \<and>
   nav (state_of (loadWeatherData_resume outcome now w)) = nav w \<and>
   nav (step AutoRefreshTick w) = nav w \<and>
   nav (step (FetchSettled outcome now) w) = nav w"
  by (simp add: nav_refresh_steps nav_loadWeatherData nav_loadWeatherData_resume)

theorem refresh_keeps_navigation_witness:
  "isDropdownOpen ((page dropdown_page empty_storage)\<lparr>isDropdownOpen := True\<rparr>) \<and>
   nav (step AutoRefreshTick ((page dropdown_page empty_storage)\<lparr>isDropdownOpen := True\<rparr>)) =
     nav ((page dropdown_page empty_storage)\<lparr>isDropdownOpen := True\<rparr>) \<and>
   nav (step (FetchSettled HttpError ''12:00'')
          ((page dropdown_page empty_storage)\<lparr>isDropdownOpen := True\<rparr>)) =
     nav ((page dropdown_page empty_storage)\<lparr>isDropdownOpen := True\<rparr>)"
  using refresh_keeps_navigation
    [of "(page dropdown_page empty_storage)\<lparr>isDropdownOpen := True\<rparr>" HttpError "''12:00''"]
  by simp

lemma returnsE: "returns c \<Longrightarrow> (\<And>w. c = Normal w \<Longrightarrow> thesis) \<Longrightarrow> thesis"
  by (cases c) simp_all

lemma at_node_fields [simp]:
  "focusableElements (at_node n f w) = focusableElements w"
  "currentFocusIndex (at_node n f w) = currentFocusIndex w"
  "isDropdownOpen (at_node n f w) = isDropdownOpen w"
  by (simp_all add: at_node_def)

lemma blur_fields [simp]:
  "focusableElements (blur n w) = focusableElements w"
  "currentFocusIndex (blur n w) = currentFocusIndex w"
  "isDropdownOpen (blur n w) = isDropdownOpen w"
  by (simp_all add: blur_def)

lemma focus_fields [simp]:
  "focusableElements (focus n w) = focusableElements w"
  "currentFocusIndex (focus n w) = currentFocusIndex w"
  "isDropdownOpen (focus n w) = isDropdownOpen w"
  by (simp_all add: focus_def)

lemma unfocus_fields [simp]:
  "focusableElements (fold (\<lambda>el w. blur el (at_node el f w)) els w) = focusableElements w"
  "currentFocusIndex (fold (\<lambda>el w. blur el (at_node el f w)) els w) = currentFocusIndex w"
  "isDropdownOpen (fold (\<lambda>el w. blur el (at_node el f w)) els w) = isDropdownOpen w"
  by (rule fold_keeps, simp)+

lemma focusElement_returns: "returns (focusElement i w)"
  by (cases "focusableElements w = []") (simp_all add: focusElement_def Let_def js_at_def)

lemma focusElement_focusable [simp]:
  "focusableElements (state_of (focusElement i w)) = focusableElements w"
  by (cases "focusableElements w = []") (simp_all add: focusElement_def Let_def js_at_def)

lemma focusElement_open [simp]:
  "isDropdownOpen (state_of (focusElement i w)) = isDropdownOpen w"
  by (cases "focusableElements w = []") (simp_all add: focusElement_def Let_def js_at_def)

lemma focusElement_index:
  "currentFocusIndex (state_of (focusElement i w)) =
     (if focusableElements w = [] then currentFocusIndex w
      else max 0 (min i (int (length (focusableElements w)) - 1)))"
  by (cases "focusableElements w = []") (simp_all add: focusElement_def Let_def js_at_def)

lemma focusElement_Normal:
  obtains w1 where "focusElement i w = Normal w1"
    and "focusableElements w1 = focusableElements w"
    and "isDropdownOpen w1 = isDropdownOpen w"
    and "currentFocusIndex w1 =
           (if focusableElements w = [] then currentFocusIndex w
            else max 0 (min i (int (length (focusableElements w)) - 1)))"
proof (cases "focusElement i w")
  case (Normal w1)
  have "focusableElements (state_of (focusElement i w)) = focusableElements w"
    and "isDropdownOpen (state_of (focusElement i w)) = isDropdownOpen w"
    by simp_all
  then show ?thesis
    using that [of w1] Normal focusElement_index [of i w] by simp
next
  case (Throw e w1)
  then show ?thesis using focusElement_returns [of i w] by simp
qed

lemma repeat_focusNext:
  assumes "focusableElements w \<noteq> []" and "0 \<le> currentFocusIndex w"
    and "currentFocusIndex w < int (length (focusableElements w))"
  shows "returns (repeat k focusNext w) \<and>
         focusableElements (state_of (repeat k focusNext w)) = focusableElements w \<and>
         currentFocusIndex (state_of (repeat k focusNext w)) =
           min (currentFocusIndex w + int k) (int (length (focusableElements w)) - 1)"
  using assms
proof (induction k arbitrary: w)
  case 0
  then show ?case by simp
next
  case (Suc k)
  obtain w1 where w1: "focusNext w = Normal w1"
    and f1: "focusableElements w1 = focusableElements w"
    and c1: "currentFocusIndex w1 =
           (if focusableElements w = [] then currentFocusIndex w
            else max 0 (min (currentFocusIndex w + 1) (int (length (focusableElements w)) - 1)))"
    unfolding focusNext_def by (rule focusElement_Normal)
  have i1: "currentFocusIndex w1 =
      min (currentFocusIndex w + 1) (int (length (focusableElements w)) - 1)"
    using c1 Suc.prems by simp
  have "returns (repeat k focusNext w1) \<and>
         focusableElements (state_of (repeat k focusNext w1)) = focusableElements w1 \<and>
         currentFocusIndex (state_of (repeat k focusNext w1)) =
           min (currentFocusIndex w1 + int k) (int (length (focusableElements w1)) - 1)"
    by (rule Suc.IH) (use Suc.prems f1 i1 in auto)
  then show ?case
    using w1 f1 i1 by auto
qed

lemma repeat_focusPrevious:
  assumes "focusableElements w \<noteq> []" and "0 \<le> currentFocusIndex w"
    and "currentFocusIndex w < int (length (focusableElements w))"
  shows "returns (repeat k focusPrevious w) \<and>
         focusableElements (state_of (repeat k focusPrevious w)) = focusableElements w \<and>
         currentFocusIndex (state_of (repeat k focusPrevious w)) =
           max 0 (currentFocusIndex w - int k)"
  using assms
proof (induction k arbitrary: w)
  case 0
  then show ?case by simp
next
  case (Suc k)
  obtain w1 where w1: "focusPrevious w = Normal w1"
    and f1: "focusableElements w1 = focusableElements w"
    and c1: "currentFocusIndex w1 =
           (if focusableElements w = [] then currentFocusIndex w
            else max 0 (min (currentFocusIndex w - 1) (int (length (focusableElements w)) - 1)))"
    unfolding focusPrevious_def by (rule focusElement_Normal)
  have i1: "currentFocusIndex w1 = max 0 (currentFocusIndex w - 1)"
    using c1 Suc.prems by simp
  have "returns (repeat k focusPrevious w1) \<and>
         focusableElements (state_of (repeat k focusPrevious w1)) = focusableElements w1 \<and>
         currentFocusIndex (state_of (repeat k focusPrevious w1)) =
           max 0 (currentFocusIndex w1 - int k)"
    by (rule Suc.IH) (use Suc.prems f1 i1 in auto)
  then show ?case
    using w1 f1 i1 by auto
qed

text \<open>
  Claim C2. On a non-empty FocusSet of length N, calling \<open>focusNext\<close> N+5 times returns
  every time and leaves FocusIndex equal to N-1, with the FocusSet unchanged: no
  wraparound. This holds from every starting FocusIndex, in range or not.
\<close>

theorem moveNext_stops_at_last:
  assumes "focusableElements w \<noteq> []"
  shows "returns (repeat (length (focusableElements w) + 5) focusNext w) \<and>
         focusableElements (state_of (repeat (length (focusableElements w) + 5) focusNext w))
           = focusableElements w \<and>
         currentFocusIndex (state_of (repeat (length (focusableElements w) + 5) focusNext w))
           = int (length (focusableElements w)) - 1"
proof -
  let ?n = "length (focusableElements w)"
  obtain w1 where w1: "focusNext w = Normal w1"
    and f1: "focusableElements w1 = focusableElements w"
    and c1: "currentFocusIndex w1 =
           (if focusableElements w = [] then currentFocusIndex w
            else max 0 (min (currentFocusIndex w + 1) (int (length (focusableElements w)) - 1)))"
    unfolding focusNext_def by (rule focusElement_Normal)
  have i1: "currentFocusIndex w1 = max 0 (min (currentFocusIndex w + 1) (int ?n - 1))"
    using c1 assms by simp
  have n: "0 < ?n" using assms by simp
  have r: "returns (repeat (?n + 4) focusNext w1) \<and>
         focusableElements (state_of (repeat (?n + 4) focusNext w1)) = focusableElements w1 \<and>
         currentFocusIndex (state_of (repeat (?n + 4) focusNext w1)) =
           min (currentFocusIndex w1 + int (?n + 4)) (int (length (focusableElements w1)) - 1)"
    by (rule repeat_focusNext) (use assms f1 i1 n in auto)
  have s: "repeat (?n + 5) focusNext w = repeat (?n + 4) focusNext w1"
    using w1 by (simp add: numeral_eq_Suc)
  show ?thesis
    unfolding s using r f1 i1 n by auto
qed


theorem moveNext_stops_at_last_witness:
  "focusableElements (state_of (constructor controls_page empty_storage)) \<noteq> [] \<and>
   currentFocusIndex
     (state_of (repeat 8 focusNext (state_of (constructor controls_page empty_storage)))) = 2"
proof -
  have h: "focusableElements (state_of (constructor controls_page empty_storage)) = [0, 1, 2]"
    by code_simp
  show ?thesis
    using moveNext_stops_at_last [of "state_of (constructor controls_page empty_storage)"] h
    by simp
qed

text \<open>
  Claim C3. On a non-empty FocusSet, from every starting FocusIndex, after N or more
  calls of \<open>focusPrevious\<close> (N the length of the FocusSet) the FocusIndex is 0; and
  from FocusIndex 0 every number of further calls leaves it at 0.
\<close>

theorem movePrevious_reaches_first:
  assumes "focusableElements w \<noteq> []"
  shows "(\<forall>k \<ge> length (focusableElements w).
            returns (repeat k focusPrevious w) \<and>
            currentFocusIndex (state_of (repeat k focusPrevious w)) = 0) \<and>
         (currentFocusIndex w = 0 \<longrightarrow>
            (\<forall>k. returns (repeat k focusPrevious w) \<and>
                 currentFocusIndex (state_of (repeat k focusPrevious w)) = 0))"
proof (intro conjI allI impI)
  fix k
  assume k: "length (focusableElements w) \<le> k"
  let ?n = "length (focusableElements w)"
  have n: "0 < ?n" using assms by simp
  then obtain k' where k': "k = Suc k'" using k by (cases k) auto
  obtain w1 where w1: "focusPrevious w = Normal w1"
    and f1: "focusableElements w1 = focusableElements w"
    and c1: "currentFocusIndex w1 =
           (if focusableElements w = [] then currentFocusIndex w
            else max 0 (min (currentFocusIndex w - 1) (int (length (focusableElements w)) - 1)))"
    unfolding focusPrevious_def by (rule focusElement_Normal)
  have i1: "0 \<le> currentFocusIndex w1 \<and> currentFocusIndex w1 \<le> int ?n - 1"
    using c1 assms n by auto
  have r: "returns (repeat k' focusPrevious w1) \<and>
         focusableElements (state_of (repeat k' focusPrevious w1)) = focusableElements w1 \<and>
         currentFocusIndex (state_of (repeat k' focusPrevious w1)) =
           max 0 (currentFocusIndex w1 - int k')"
    by (rule repeat_focusPrevious) (use assms f1 i1 in auto)
  have s: "repeat k focusPrevious w = repeat k' focusPrevious w1"
    using w1 k' by simp
  show "returns (repeat k focusPrevious w)" unfolding s using r by simp
  show "currentFocusIndex (state_of (repeat k focusPrevious w)) = 0"
    unfolding s using r i1 k k' by auto
next
  fix k
  assume z: "currentFocusIndex w = 0"
  have r: "returns (repeat k focusPrevious w) \<and>
         focusableElements (state_of (repeat k focusPrevious w)) = focusableElements w \<and>
         currentFocusIndex (state_of (repeat k focusPrevious w)) =
           max 0 (currentFocusIndex w - int k)"
    by (rule repeat_focusPrevious) (use assms z in auto)
  show "returns (repeat k focusPrevious w)" using r by simp
  show "currentFocusIndex (state_of (repeat k focusPrevious w)) = 0" using r z by simp
qed

theorem movePrevious_reaches_first_witness:
  "focusableElements
     (run [KeyDown ''ArrowRight'', KeyDown ''ArrowRight'']
        (state_of (constructor controls_page empty_storage))) \<noteq> [] \<and>
   currentFocusIndex
     (run [KeyDown ''ArrowRight'', KeyDown ''ArrowRight'']
        (state_of (constructor controls_page empty_storage))) = 2 \<and>
   currentFocusIndex
     (state_of (repeat 3 focusPrevious
        (run [KeyDown ''ArrowRight'', KeyDown ''ArrowRight'']
           (state_of (constructor controls_page empty_storage))))) = 0"
proof -
  let ?w = "run [KeyDown ''ArrowRight'', KeyDown ''ArrowRight'']
              (state_of (constructor controls_page empty_storage))"
  have g: "focusableElements ?w = [0, 1, 2]"
    by code_simp
  have c: "currentFocusIndex ?w = 2"
    by code_simp
  show ?thesis
    using movePrevious_reaches_first [of ?w] g c by simp
qed

text \<open>
  Claim C5. When the FocusSet is empty, \<open>activateFocusedElement\<close> returns normally and
  leaves the whole state as it was: no listener runs, nothing is thrown.
\<close>

theorem activate_on_empty_focus_set:
  assumes "focusableElements w = []"
  shows "activateFocusedElement w = Normal w"
  using assms by (auto simp: activateFocusedElement_def js_at_def)

theorem activate_on_empty_focus_set_witness:
  "focusableElements (run [Click 0] (state_of (constructor empty_dropdown_page empty_storage))) = [] \<and>
   activateFocusedElement (run [Click 0] (state_of (constructor empty_dropdown_page empty_storage)))
     = Normal (run [Click 0] (state_of (constructor empty_dropdown_page empty_storage)))"
proof -
  have h: "focusableElements
      (run [Click 0] (state_of (constructor empty_dropdown_page empty_storage))) = []"
    by code_simp
  show ?thesis
    using activate_on_empty_focus_set [OF h] h by simp
qed

text \<open>
  Claim C6. When the dropdown is not open, \<open>closeDropdown\<close> (called directly, or by the
  Escape or Backspace key) returns normally with the state unchanged: NavigationMode,
  FocusIndex, the FocusSet and everything else stay.
\<close>

theorem closeOverlay_in_normal_mode:
  assumes "\<not> isDropdownOpen w"
  shows "closeDropdown w = Normal w \<and> handleKeyDown ''Escape'' w = Normal w \<and>
         handleKeyDown ''Backspace'' w = Normal w"
  using assms by (simp add: closeDropdown_def handleKeyDown_def)

theorem closeOverlay_in_normal_mode_witness:
  "\<not> isDropdownOpen (state_of (constructor controls_page empty_storage)) \<and>
   closeDropdown (state_of (constructor controls_page empty_storage))
     = Normal (state_of (constructor controls_page empty_storage))"
proof -
  have h: "\<not> isDropdownOpen (state_of (constructor controls_page empty_storage))"
    by code_simp
  show ?thesis
    using closeOverlay_in_normal_mode [OF h] h by simp
qed


lemma focus_in_range_nav: "nav w' = nav w \<Longrightarrow> focus_in_range w' = focus_in_range w"
  by (simp add: nav_def focus_in_range_def)

lemmas inv_then_do = keep_then_do [where p = focus_in_range and v = True, simplified]
lemmas inv_try_catch = keep_try_catch [where p = focus_in_range and v = True, simplified]

lemma fold_inv: "(\<And>x s. I s \<Longrightarrow> I (g x s)) \<Longrightarrow> I s \<Longrightarrow> I (fold g xs s)"
  by (induction xs arbitrary: s) simp_all

lemma inv_focusElement: "focus_in_range (state_of (focusElement i w))"
proof -
  obtain w1 where "focusElement i w = Normal w1"
    and "focusableElements w1 = focusableElements w"
    and "currentFocusIndex w1 =
           (if focusableElements w = [] then currentFocusIndex w
            else max 0 (min i (int (length (focusableElements w)) - 1)))"
    by (rule focusElement_Normal)
  then show ?thesis by (auto simp: focus_in_range_def)
qed

lemma inv_toggleCityDropdown:
  assumes "focus_in_range w"
  shows "focus_in_range (state_of (toggleCityDropdown w))"
proof -
  have a: "\<And>v. focus_in_range (w\<lparr>isDropdownOpen := v\<rparr>)"
    using assms by (simp add: focus_in_range_def)
  have b: "\<And>f v. focus_in_range
      (state_of (with_element ''cityDropdown'' f (w\<lparr>isDropdownOpen := v\<rparr>)))"
    using a focus_in_range_nav [OF nav_with_element] by simp
  show ?thesis
    unfolding toggleCityDropdown_def Let_def
    by (auto intro!: inv_then_do b inv_focusElement)
qed

lemma inv_closeDropdown:
  assumes "focus_in_range w"
  shows "focus_in_range (state_of (closeDropdown w))"
proof -
  have a: "focus_in_range (w\<lparr>isDropdownOpen := False\<rparr>)"
    using assms by (simp add: focus_in_range_def)
  have b: "\<And>f. focus_in_range
      (state_of (with_element ''cityDropdown'' f (w\<lparr>isDropdownOpen := False\<rparr>)))"
    using a focus_in_range_nav [OF nav_with_element] by simp
  show ?thesis
    unfolding closeDropdown_def using assms
    by (auto intro!: inv_then_do b inv_focusElement)
qed

lemma nav_saveCity: "nav (state_of (saveCity k w)) = nav w"
  by (simp add: saveCity_def nav_console_add split: sum.split)

lemma nav_setTimeRange: "nav (state_of (setTimeRange h w)) = nav w"
  unfolding setTimeRange_def
  by (intro nav_then_do) (simp_all add: nav_with_element nav_drawChart)

lemma inv_selectCity:
  assumes "focus_in_range w"
  shows "focus_in_range (state_of (selectCity k w))"
proof -
  have a: "focus_in_range (state_of (saveCity k (w\<lparr>currentCity := k\<rparr>)))"
    using assms focus_in_range_nav [OF nav_saveCity, of k "w\<lparr>currentCity := k\<rparr>"]
      focus_in_range_nav [of "w\<lparr>currentCity := k\<rparr>" w]
    by simp
  show ?thesis
    unfolding selectCity_def
    apply (intro inv_then_do a)
      apply (simp add: focus_in_range_nav [OF nav_at_node] split: option.split)
     apply (erule inv_closeDropdown)
    apply (simp add: focus_in_range_nav [OF trans [OF nav_call_async nav_loadWeatherData]])
    done
qed

lemma inv_run_handler:
  assumes "focus_in_range w"
  shows "focus_in_range (state_of (run_handler h w))"
proof (cases h)
  case ToggleCityDropdown
  then show ?thesis using assms by (simp add: run_handler_def inv_toggleCityDropdown)
next
  case (SelectCityOf n)
  then show ?thesis using assms by (simp add: run_handler_def inv_selectCity)
next
  case (SetTimeRange hours)
  then show ?thesis
    using assms focus_in_range_nav [OF nav_setTimeRange] by (simp add: run_handler_def)
next
  case LoadWeatherData
  then show ?thesis
    using assms focus_in_range_nav [OF trans [OF nav_call_async nav_loadWeatherData]]
    by (simp add: run_handler_def)
qed

lemma inv_listener_call: "focus_in_range (listener_call c) = focus_in_range (state_of c)"
  by (rule focus_in_range_nav) (rule nav_listener_call)

lemma inv_click:
  assumes "focus_in_range w"
  shows "focus_in_range (click el w)"
proof (cases "el < length (document w) \<and> el_disabled (document w ! el)")
  case True
  then show ?thesis using assms by (simp add: click_def)
next
  case False
  have "focus_in_range
      (fold (\<lambda>h w1. listener_call (run_handler h w1)) (click_listeners w el) w)"
    by (rule fold_inv [where I = focus_in_range])
      (simp_all add: inv_listener_call inv_run_handler assms)
  then show ?thesis using False assms by (simp add: click_def)
qed

lemma inv_handleKeyDown:
  assumes "focus_in_range w"
  shows "focus_in_range (state_of (handleKeyDown key w))"
  using assms
  by (simp add: handleKeyDown_def focusNext_def focusPrevious_def inv_focusElement
      activateFocusedElement_def inv_click inv_closeDropdown split: option.split)

lemma inv_step:
  assumes "focus_in_range w"
  shows "focus_in_range (step ev w)"
proof (cases ev)
  case (KeyDown key)
  then show ?thesis
    using assms by (simp add: step_def inv_listener_call inv_handleKeyDown)
next
  case (Click el)
  then show ?thesis using assms by (simp add: step_def inv_click)
next
  case FocusTimeout
  then show ?thesis
    using assms by (simp add: step_def inv_listener_call inv_focusElement)
next
  case AutoRefreshTick
  then show ?thesis
    using assms focus_in_range_nav [of "step AutoRefreshTick w" w] nav_refresh_steps
    by simp
next
  case (FetchSettled outcome now)
  then show ?thesis
    using assms focus_in_range_nav [of "step (FetchSettled outcome now) w" w]
      nav_refresh_steps
    by simp
qed


lemma nav_addEventListener_click: "nav (state_of (addEventListener_click i h w)) = nav w"
  by (simp add: addEventListener_click_def split: option.split)

lemma nav_setupEventListeners: "nav (state_of (setupEventListeners w)) = nav w"
proof -
  have f: "\<And>els w1. nav (fold (\<lambda>option w2.
      w2\<lparr>listeners := listeners w2 @ [(option, SelectCityOf option)]\<rparr>) els w1) = nav w1"
    by (rule fold_keeps [where p = nav]) simp
  show ?thesis
    unfolding setupEventListeners_def
    by (intro nav_then_do) (simp_all add: nav_addEventListener_click f)
qed

lemma nav_startAutoRefresh: "nav (startAutoRefresh w) = nav w"
  by (simp add: startAutoRefresh_def nav_def)

lemma inv_updateFocusableElements:
  "currentFocusIndex w = 0 \<Longrightarrow> focus_in_range (updateFocusableElements w)"
  by (auto simp: updateFocusableElements_def focus_in_range_def Let_def)

lemma inv_init:
  assumes "currentFocusIndex w = 0" and "focusableElements w = []"
  shows "focus_in_range (state_of (init w))"
proof (cases "setupEventListeners (console_add LogInitializing w)")
  case (Throw e w1)
  have "nav w1 = nav w"
    using nav_setupEventListeners [of "console_add LogInitializing w"] Throw
    by (simp add: nav_console_add)
  then have "focus_in_range w1"
    using assms by (simp add: nav_def focus_in_range_def)
  then show ?thesis by (simp add: init_def Throw)
next
  case (Normal w1)
  have "nav w1 = nav w"
    using nav_setupEventListeners [of "console_add LogInitializing w"] Normal
    by (simp add: nav_console_add)
  then have "currentFocusIndex w1 = 0"
    using assms by (simp add: nav_def)
  then have u: "focus_in_range (updateFocusableElements w1)"
    by (rule inv_updateFocusableElements)
  let ?w4 = "startAutoRefresh (call_async (loadWeatherData (updateFocusableElements w1)))"
  have "nav ?w4 = nav (updateFocusableElements w1)"
    by (simp add: nav_startAutoRefresh nav_call_async nav_loadWeatherData)
  then have w4: "focus_in_range ?w4"
    using u focus_in_range_nav [of ?w4 "updateFocusableElements w1"] by simp
  have "focus_in_range (state_of (then_do
      (case getElementById (document ?w4) ''selectedCity'' of
         None \<Rightarrow> Throw TypeError ?w4
       | Some n \<Rightarrow>
           (case cities_at (currentCity ?w4) of
              None \<Rightarrow> Throw TypeError ?w4
            | Some c \<Rightarrow> Normal (at_node n (\<lambda>e. e\<lparr>el_content := Text (name c)\<rparr>) ?w4)))
      (\<lambda>w5. Normal (console_add LogInitialized w5))))"
    by (rule inv_then_do)
      (simp_all add: w4 focus_in_range_nav [OF nav_at_node]
        focus_in_range_nav [OF nav_console_add] split: option.split)
  then show ?thesis by (simp add: init_def Normal Let_def)
qed

lemma loadSavedCity_eq:
  "loadSavedCity w =
     (if st_readable (localStorage w)
      then Returned (st_items (localStorage w) ''appleTV_selectedCity'') w
      else Returned None (console_add (WarnCouldNotLoad StorageError) w))"
  by (simp add: loadSavedCity_def getItem_def)

lemma inv_constructor: "focus_in_range (state_of (constructor d st))"
  unfolding constructor_def loadSavedCity_eq
  by (cases "st_readable (localStorage (page d st))") (simp_all add: inv_init)

lemma reachable_focus_in_range: "reachable w \<Longrightarrow> focus_in_range w"
  by (induction rule: reachable.induct) (simp_all add: inv_constructor inv_step)

text \<open>
  Claim C1. In every state the application can reach (the state the constructor leaves,
  and the state after every key, click, timeout, refresh tick and response, so after every
  call of \<open>focusNext\<close>, \<open>focusPrevious\<close>, \<open>activateFocusedElement\<close>,
  \<open>toggleCityDropdown\<close> and \<open>closeDropdown\<close>), a non-empty FocusSet comes with a
  FocusIndex between 0 and its length minus 1. Command by command: \<open>focusNext\<close>,
  \<open>focusPrevious\<close> and a recomputation of the FocusSet with the \<open>focusElement(0)\<close> that
  follows it in the same call leave the FocusIndex in range from any state;
  \<open>activateFocusedElement\<close>, \<open>toggleCityDropdown\<close> and \<open>closeDropdown\<close> keep it in range.
\<close>

theorem focus_index_in_range:
  "(reachable w \<longrightarrow> focusableElements w \<noteq> [] \<longrightarrow>
      0 \<le> currentFocusIndex w \<and> currentFocusIndex w < int (length (focusableElements w))) \<and>
   focus_in_range (state_of (focusNext w)) \<and>
   focus_in_range (state_of (focusPrevious w)) \<and>
   focus_in_range (state_of (focusElement 0 (updateFocusableElements w))) \<and>
   (focus_in_range w \<longrightarrow>
      focus_in_range (state_of (activateFocusedElement w)) \<and>
      focus_in_range (state_of (toggleCityDropdown w)) \<and>
      focus_in_range (state_of (closeDropdown w)))"
proof (intro conjI impI)
  assume "reachable w" and "focusableElements w \<noteq> []"
  then show "0 \<le> currentFocusIndex w"
    and "currentFocusIndex w < int (length (focusableElements w))"
    using reachable_focus_in_range [of w] by (simp_all add: focus_in_range_def)
next
  show "focus_in_range (state_of (focusNext w))"
    and "focus_in_range (state_of (focusPrevious w))"
    and "focus_in_range (state_of (focusElement 0 (updateFocusableElements w)))"
    by (simp_all add: focusNext_def focusPrevious_def inv_focusElement)
next
  assume i: "focus_in_range w"
  show "focus_in_range (state_of (activateFocusedElement w))"
    using i by (simp add: activateFocusedElement_def inv_click split: option.split)
  show "focus_in_range (state_of (toggleCityDropdown w))"
    using i by (rule inv_toggleCityDropdown)
  show "focus_in_range (state_of (closeDropdown w))"
    using i by (rule inv_closeDropdown)
qed

theorem focus_index_in_range_witness:
  "reachable (run [Click 0, KeyDown ''ArrowDown'', KeyDown ''ArrowDown'']
              (state_of (constructor dropdown_page empty_storage))) \<and>
   focusableElements (run [Click 0, KeyDown ''ArrowDown'', KeyDown ''ArrowDown'']
              (state_of (constructor dropdown_page empty_storage))) = [2, 3] \<and>
   currentFocusIndex (run [Click 0, KeyDown ''ArrowDown'', KeyDown ''ArrowDown'']
              (state_of (constructor dropdown_page empty_storage))) = 1 \<and>
   focus_in_range (state_of (focusNext (run [Click 0, KeyDown ''ArrowDown'', KeyDown ''ArrowDown'']
              (state_of (constructor dropdown_page empty_storage)))))"
proof -
  let ?w = "run [Click 0, KeyDown ''ArrowDown'', KeyDown ''ArrowDown'']
              (state_of (constructor dropdown_page empty_storage))"
  have r: "reachable ?w"
    by (simp add: reachable.intros)
  have f: "focusableElements ?w = [2, 3]"
    by code_simp
  have c: "currentFocusIndex ?w = 1"
    by code_simp
  have i: "focus_in_range ?w"
    using f c by (simp add: focus_in_range_def)
  show ?thesis
    using focus_index_in_range [of ?w] r f c i by simp
qed


lemmas city_then_do = keep_then_do [where p = currentCity]
lemmas city_try_catch = keep_try_catch [where p = currentCity]

lemma city_with_element: "currentCity (state_of (with_element i f w)) = currentCity w"
  by (simp add: with_element_def split: option.split)

lemma city_console_add: "currentCity (console_add l w) = currentCity w"
  by (simp add: console_add_def)

lemma city_showError: "currentCity (state_of (showError m w)) = currentCity w"
  unfolding showError_def Let_def
  by (rule city_then_do)
    (simp_all add: set_textContent_def city_with_element at_node_def split: option.split)

lemma city_loadWeatherData_catch:
  "currentCity (state_of (loadWeatherData_catch e w)) = currentCity w"
  unfolding loadWeatherData_catch_def
  by (rule city_then_do)
    (simp_all add: city_showError city_console_add showLoading_def city_with_element)

lemma city_loadWeatherData: "currentCity (state_of (loadWeatherData w)) = currentCity w"
  unfolding loadWeatherData_def Let_def
  apply (intro city_then_do city_try_catch)
     apply (simp_all add: showLoading_def hideError_def city_with_element
      city_loadWeatherData_catch)
  apply (simp split: option.split)
  done

lemma city_call_async: "currentCity (call_async c) = currentCity (state_of c)"
  by (cases c) (simp_all add: call_async_def city_console_add)

lemma city_setupEventListeners:
  "currentCity (state_of (setupEventListeners w)) = currentCity w"
proof -
  have f: "\<And>els w1. currentCity (fold (\<lambda>option w2.
      w2\<lparr>listeners := listeners w2 @ [(option, SelectCityOf option)]\<rparr>) els w1) = currentCity w1"
    by (rule fold_keeps [where p = currentCity]) simp
  show ?thesis
    unfolding setupEventListeners_def
    by (intro city_then_do)
      (simp_all add: addEventListener_click_def f split: option.split)
qed

lemma city_startAutoRefresh: "currentCity (startAutoRefresh w) = currentCity w"
  by (simp add: startAutoRefresh_def)

lemma city_updateFocusableElements: "currentCity (updateFocusableElements w) = currentCity w"
  by (simp add: updateFocusableElements_def Let_def)

lemma city_at_node: "currentCity (at_node n f w) = currentCity w"
  by (simp add: at_node_def)

lemma city_init: "currentCity (state_of (init w)) = currentCity w"
proof (cases "setupEventListeners (console_add LogInitializing w)")
  case (Throw e w1)
  then show ?thesis
    using city_setupEventListeners [of "console_add LogInitializing w"]
    by (simp add: init_def city_console_add)
next
  case (Normal w1)
  have w1: "currentCity w1 = currentCity w"
    using city_setupEventListeners [of "console_add LogInitializing w"] Normal
    by (simp add: city_console_add)
  let ?w4 = "startAutoRefresh (call_async (loadWeatherData (updateFocusableElements w1)))"
  have w4: "currentCity ?w4 = currentCity w"
    by (simp add: city_startAutoRefresh city_call_async city_loadWeatherData
        city_updateFocusableElements w1)
  have "currentCity (state_of (then_do
      (case getElementById (document ?w4) ''selectedCity'' of
         None \<Rightarrow> Throw TypeError ?w4
       | Some n \<Rightarrow>
           (case cities_at (currentCity ?w4) of
              None \<Rightarrow> Throw TypeError ?w4
            | Some c \<Rightarrow> Normal (at_node n (\<lambda>e. e\<lparr>el_content := Text (name c)\<rparr>) ?w4)))
      (\<lambda>w5. Normal (console_add LogInitialized w5)))) = currentCity w"
    by (rule city_then_do) (simp_all add: w4 city_at_node city_console_add split: option.split)
  then show ?thesis by (simp add: init_def Normal Let_def)
qed

lemma constructor_city:
  "currentCity (state_of (constructor d st)) =
     Some (or_tokyo (if st_readable st then st_items st ''appleTV_selectedCity'' else None))"
  unfolding constructor_def loadSavedCity_eq
  by (simp add: city_init page_def console_add_def)

text \<open>
  Claim C9. Saving and loading the selected city never throw, whatever the state of the
  local storage. When the storage cannot be written, \<open>saveCity\<close> returns normally and the
  only change is a warning on the console; when it cannot be read, \<open>loadSavedCity\<close>
  returns \<open>null\<close> normally and the only change is a warning on the console, and the
  constructor then starts with the city \<open>tokyo\<close>, as it does when nothing is saved.
\<close>

theorem persistence_never_throws:
  "returns (saveCity key w) \<and>
   (\<exists>v w'. loadSavedCity w = Returned v w') \<and>
   (\<not> st_writable (localStorage w) \<longrightarrow>
      saveCity key w = Normal (console_add (WarnCouldNotSave StorageError) w)) \<and>
   (\<not> st_readable (localStorage w) \<longrightarrow>
      loadSavedCity w = Returned None (console_add (WarnCouldNotLoad StorageError) w)) \<and>
   (\<not> st_readable st \<longrightarrow> currentCity (state_of (constructor d st)) = Some ''tokyo'') \<and>
   (st_readable st \<and> st_items st ''appleTV_selectedCity'' = None \<longrightarrow>
      currentCity (state_of (constructor d st)) = Some ''tokyo'')"
  by (simp add: saveCity_def setItem_def loadSavedCity_eq constructor_city or_tokyo_def)

theorem persistence_never_throws_witness:
  "\<not> st_writable (localStorage (state_of (constructor controls_page unavailable_storage))) \<and>
   \<not> st_readable unavailable_storage \<and>
   saveCity (Some ''osaka'') (state_of (constructor controls_page unavailable_storage)) =
     Normal (console_add (WarnCouldNotSave StorageError)
       (state_of (constructor controls_page unavailable_storage))) \<and>
   currentCity (state_of (constructor controls_page unavailable_storage)) = Some ''tokyo''"
proof -
  have a: "\<not> st_writable (localStorage (state_of (constructor controls_page unavailable_storage)))"
    by code_simp
  have b: "\<not> st_readable unavailable_storage"
    by (simp add: unavailable_storage_def)
  show ?thesis
    using persistence_never_throws
      [of "Some ''osaka''" "state_of (constructor controls_page unavailable_storage)"
          unavailable_storage controls_page] a b
    by simp
qed


lemma then_do_Normal:
  "then_do c f = Normal w' \<longleftrightarrow> (\<exists>w1. c = Normal w1 \<and> f w1 = Normal w')"
  by (cases c) simp_all

lemma returns_Normal: "returns c \<longleftrightarrow> (\<exists>w. c = Normal w)"
  by (cases c) simp_all

lemma getElementById_Some:
  "getElementById d i = Some n \<Longrightarrow> n < length d \<and> el_id (d ! n) = i"
  unfolding getElementById_def by (auto simp: find_Some_iff)

lemma length_update_node [simp]: "length (update_node n f d) = length d"
  by (simp add: update_node_def)

lemma nth_update_node:
  "k < length d \<Longrightarrow> update_node n f d ! k = (if k = n then f (d ! k) else d ! k)"
  by (simp add: update_node_def)

lemma getElementById_update_node:
  assumes "\<And>e. el_id (f e) = el_id e"
  shows "getElementById (update_node n f d) i = getElementById d i"
  unfolding getElementById_def length_update_node
  by (rule find_cong) (simp_all add: nth_update_node assms)

lemma displays_set_textContent:
  assumes "set_textContent i c w = Normal w'"
  shows "displays w' i c"
proof -
  obtain n where n: "getElementById (document w) i = Some n"
    and w': "w' = w\<lparr>document := update_node n (\<lambda>e. e\<lparr>el_content := c\<rparr>) (document w)\<rparr>"
    using assms by (auto simp: set_textContent_def with_element_def split: option.splits)
  have "n < length (document w)" using getElementById_Some [OF n] by simp
  then show ?thesis
    by (simp add: displays_def w' getElementById_update_node n nth_update_node)
qed

lemma displays_set_textContent_other:
  assumes "set_textContent j c' w = Normal w'" and "i \<noteq> j" and "displays w i c"
  shows "displays w' i c"
proof -
  obtain n where n: "getElementById (document w) j = Some n"
    and w': "w' = w\<lparr>document := update_node n (\<lambda>e. e\<lparr>el_content := c'\<rparr>) (document w)\<rparr>"
    using assms(1) by (auto simp: set_textContent_def with_element_def split: option.splits)
  obtain m where m: "getElementById (document w) i = Some m"
    and c: "el_content (document w ! m) = c"
    using assms(3) by (auto simp: displays_def split: option.splits)
  have "m \<noteq> n" using getElementById_Some [OF n] getElementById_Some [OF m] assms(2) by auto
  moreover have "m < length (document w)" using getElementById_Some [OF m] by simp
  ultimately show ?thesis
    by (simp add: displays_def w' getElementById_update_node m c nth_update_node)
qed

lemma displays_updateWeatherIcon:
  assumes "updateWeatherIcon code w = Normal w'" and "displays w i c"
  shows "displays w' i c"
proof -
  obtain n cl where w': "w' = at_node n (\<lambda>e. e\<lparr>el_classes := cl\<rparr>) w"
    using assms(1) by (auto simp: updateWeatherIcon_def Let_def split: option.splits)
  obtain m where m: "getElementById (document w) i = Some m"
    and c: "el_content (document w ! m) = c"
    using assms(2) by (auto simp: displays_def split: option.splits)
  have "m < length (document w)" using getElementById_Some [OF m] by simp
  then show ?thesis
    using c by (auto simp: displays_def w' at_node_def getElementById_update_node m nth_update_node)
qed

lemma updateCurrentWeather_displays:
  assumes "hourly data = Some h" and "updateCurrentWeather data w = Normal w'"
  shows "displays w' ''currentTemp'' (Celsius (js_num_at (temperature_2m h) 24)) \<and>
         displays w' ''humidity'' (Percent (js_num_at (relative_humidity_2m h) 24)) \<and>
         displays w' ''windSpeed'' (MetresPerSecond (js_num_at (wind_speed_10m h) 24)) \<and>
         displays w' ''precipitation'' (Millimetres (js_num_at (precipitation h) 24)) \<and>
         (\<exists>w4. updateWeatherIcon (js_num_at (weather_code h) 24) w4 = Normal w')"
proof -
  obtain w1 w2 w3 w4 where
    s1: "set_textContent ''currentTemp'' (Celsius (js_num_at (temperature_2m h) 24)) w = Normal w1"
    and s2: "set_textContent ''humidity'' (Percent (js_num_at (relative_humidity_2m h) 24)) w1
               = Normal w2"
    and s3: "set_textContent ''windSpeed'' (MetresPerSecond (js_num_at (wind_speed_10m h) 24)) w2
               = Normal w3"
    and s4: "set_textContent ''precipitation'' (Millimetres (js_num_at (precipitation h) 24)) w3
               = Normal w4"
    and s5: "updateWeatherIcon (js_num_at (weather_code h) 24) w4 = Normal w'"
    using assms by (auto simp: updateCurrentWeather_def Let_def then_do_Normal)
  have t: "displays w4 ''currentTemp'' (Celsius (js_num_at (temperature_2m h) 24))"
    by (intro displays_set_textContent_other [OF s4] displays_set_textContent_other [OF s3]
        displays_set_textContent_other [OF s2] displays_set_textContent [OF s1]) simp_all
  have u: "displays w4 ''humidity'' (Percent (js_num_at (relative_humidity_2m h) 24))"
    by (intro displays_set_textContent_other [OF s4] displays_set_textContent_other [OF s3]
        displays_set_textContent [OF s2]) simp_all
  have v: "displays w4 ''windSpeed'' (MetresPerSecond (js_num_at (wind_speed_10m h) 24))"
    by (intro displays_set_textContent_other [OF s4] displays_set_textContent [OF s3]) simp_all
  have p: "displays w4 ''precipitation'' (Millimetres (js_num_at (precipitation h) 24))"
    by (rule displays_set_textContent [OF s4])
  show ?thesis
    using t u v p s5 by (auto intro: displays_updateWeatherIcon)
qed

lemma js_slice_past: "js_slice xs 0 (24 + 1) = take 25 xs"
  by (simp add: js_slice_def Let_def min_def)

lemma js_slice_future:
  assumes "0 \<le> r"
  shows "js_slice xs 24 (24 + r + 1) = take (nat r + 1) (drop 24 xs)"
proof (cases "length xs \<le> 24")
  case True
  then show ?thesis by (simp add: js_slice_def Let_def min_def)
next
  case False
  then show ?thesis using assms by (auto simp: js_slice_def Let_def min_def nat_add_distrib)
qed

lemma js_slice_rest: "js_slice xs 1 (int (length xs)) = drop 1 xs"
  by (cases xs) (simp_all add: js_slice_def Let_def min_def)


lemma labels_eq: "take 25 xs @ drop (Suc 0) (take (Suc r) (drop 24 xs)) = take (25 + r) xs"
proof -
  have "drop (Suc 0) (take (Suc r) (drop 24 xs)) = take r (drop 25 xs)"
    by (simp add: drop_take)
  then show ?thesis by (simp add: take_add)
qed

lemma drawChart_config:
  assumes "weatherData w = Some data" and "hourly data = Some h"
    and "0 \<le> currentTimeRange w" and "returns (drawChart w)"
  shows "map_option config (chart (state_of (drawChart w))) = Some
     \<lparr>labels = take (25 + nat (currentTimeRange w)) (time h),
      past_temperature = points (take 25 (time h)) (take 25 (temperature_2m h)),
      future_temperature =
        points (take (nat (currentTimeRange w) + 1) (drop 24 (time h)))
          (take (nat (currentTimeRange w) + 1) (drop 24 (temperature_2m h))),
      past_precipitation = points (take 25 (time h)) (take 25 (precipitation h)),
      future_precipitation =
        points (take (nat (currentTimeRange w) + 1) (drop 24 (time h)))
          (take (nat (currentTimeRange w) + 1) (drop 24 (precipitation h))),
      currentTime_line = js_at (time h) 24\<rparr>"
  using assms(4)
  unfolding drawChart_def Let_def assms(1,2) option.case js_slice_rest js_slice_past
    js_slice_future [OF assms(3)]
  by (simp add: labels_eq split: option.splits)

lemma req_with_element: "requests (state_of (with_element i f w)) = requests w"
  by (simp add: with_element_def split: option.split)

lemma req_loadWeatherData_catch: "requests (state_of (loadWeatherData_catch e w)) = requests w"
proof -
  have a: "\<And>m w1. requests (state_of (showError m w1)) = requests w1"
    unfolding showError_def Let_def
    by (rule keep_then_do [where p = requests])
      (simp_all add: set_textContent_def req_with_element at_node_def split: option.split)
  show ?thesis
    unfolding loadWeatherData_catch_def
    by (rule keep_then_do [where p = requests])
      (simp_all add: a console_add_def showLoading_def req_with_element)
qed

lemma loadWeatherData_requests:
  "requests (state_of (loadWeatherData w)) = requests w \<or>
   (\<exists>r. past_hours r = 24 \<and> requests (state_of (loadWeatherData w)) = requests w @ [r])"
proof (cases "showLoading True w")
  case (Throw e w1)
  then show ?thesis
    using req_with_element [of "''loadingOverlay''" "classList_toggle ''active'' True" w]
    by (simp add: loadWeatherData_def Let_def showLoading_def)
next
  case (Normal w1)
  then have w1: "requests w1 = requests w"
    using req_with_element [of "''loadingOverlay''" "classList_toggle ''active'' True" w]
    by (simp add: showLoading_def)
  show ?thesis
  proof (cases "hideError w1")
    case (Throw e w2)
    then show ?thesis
      using req_with_element [of "''errorMessage''" "classList_remove ''active''" w1] w1 Normal
      by (simp add: loadWeatherData_def Let_def hideError_def)
  next
    case n2: (Normal w2)
    then have w2: "requests w2 = requests w"
      using req_with_element [of "''errorMessage''" "classList_remove ''active''" w1] w1
      by (simp add: hideError_def)
    show ?thesis
    proof (cases "cities_at (currentCity w)")
      case None
      then show ?thesis
        using Normal n2 w2 by (simp add: loadWeatherData_def Let_def req_loadWeatherData_catch)
    next
      case (Some c)
      then show ?thesis
        using Normal n2 w2 by (simp add: loadWeatherData_def Let_def)
    qed
  qed
qed

text \<open>
  Claim C10. The code that shows the current weather and the code that splits the chart
  use position 24 of the hourly arrays as "now", whatever the response holds.
  \<open>updateCurrentWeather\<close>, when it returns, has written the temperature, humidity, wind
  speed and precipitation of position 24 and has set the icon from the weather code of
  position 24. \<open>drawChart\<close>, when it returns (the time range not negative), gives the
  chart the past series made of positions 0 to 24 (the first 25 entries), the future
  series that start at position 24, and the "now" line at the time of position 24. Every
  request \<open>loadWeatherData\<close> sends asks for 24 past hours: no setting changes it.
\<close>

theorem now_is_index_24:
  "(hourly data = Some h \<longrightarrow> returns (updateCurrentWeather data w) \<longrightarrow>
      displays (state_of (updateCurrentWeather data w)) ''currentTemp''
        (Celsius (js_num_at (temperature_2m h) 24)) \<and>
      displays (state_of (updateCurrentWeather data w)) ''humidity''
        (Percent (js_num_at (relative_humidity_2m h) 24)) \<and>
      displays (state_of (updateCurrentWeather data w)) ''windSpeed''
        (MetresPerSecond (js_num_at (wind_speed_10m h) 24)) \<and>
      displays (state_of (updateCurrentWeather data w)) ''precipitation''
        (Millimetres (js_num_at (precipitation h) 24)) \<and>
      (\<exists>w4. updateWeatherIcon (js_num_at (weather_code h) 24) w4
             = updateCurrentWeather data w)) \<and>
   (weatherData w = Some data \<longrightarrow> hourly data = Some h \<longrightarrow> 0 \<le> currentTimeRange w \<longrightarrow>
    returns (drawChart w) \<longrightarrow>
      map_option config (chart (state_of (drawChart w))) = Some
        \<lparr>labels = take (25 + nat (currentTimeRange w)) (time h),
         past_temperature = points (take 25 (time h)) (take 25 (temperature_2m h)),
         future_temperature =
           points (take (nat (currentTimeRange w) + 1) (drop 24 (time h)))
             (take (nat (currentTimeRange w) + 1) (drop 24 (temperature_2m h))),
         past_precipitation = points (take 25 (time h)) (take 25 (precipitation h)),
         future_precipitation =
           points (take (nat (currentTimeRange w) + 1) (drop 24 (time h)))
             (take (nat (currentTimeRange w) + 1) (drop 24 (precipitation h))),
         currentTime_line = js_at (time h) 24\<rparr>) \<and>
   (requests (state_of (loadWeatherData w)) = requests w \<or>
    (\<exists>r. past_hours r = 24 \<and> requests (state_of (loadWeatherData w)) = requests w @ [r]))"
proof (intro conjI impI)
  assume h: "hourly data = Some h" and r: "returns (updateCurrentWeather data w)"
  then obtain w' where w': "updateCurrentWeather data w = Normal w'"
    by (auto simp: returns_Normal)
  note d = updateCurrentWeather_displays [OF h w']
  show "displays (state_of (updateCurrentWeather data w)) ''currentTemp''
        (Celsius (js_num_at (temperature_2m h) 24))"
    and "displays (state_of (updateCurrentWeather data w)) ''humidity''
        (Percent (js_num_at (relative_humidity_2m h) 24))"
    and "displays (state_of (updateCurrentWeather data w)) ''windSpeed''
        (MetresPerSecond (js_num_at (wind_speed_10m h) 24))"
    and "displays (state_of (updateCurrentWeather data w)) ''precipitation''
        (Millimetres (js_num_at (precipitation h) 24))"
    and "\<exists>w4. updateWeatherIcon (js_num_at (weather_code h) 24) w4
             = updateCurrentWeather data w"
    using d by (simp_all add: w')
next
  assume "weatherData w = Some data" and "hourly data = Some h"
    and "0 \<le> currentTimeRange w" and "returns (drawChart w)"
  then show "map_option config (chart (state_of (drawChart w))) = Some
        \<lparr>labels = take (25 + nat (currentTimeRange w)) (time h),
         past_temperature = points (take 25 (time h)) (take 25 (temperature_2m h)),
         future_temperature =
           points (take (nat (currentTimeRange w) + 1) (drop 24 (time h)))
             (take (nat (currentTimeRange w) + 1) (drop 24 (temperature_2m h))),
         past_precipitation = points (take 25 (time h)) (take 25 (precipitation h)),
         future_precipitation =
           points (take (nat (currentTimeRange w) + 1) (drop 24 (time h)))
             (take (nat (currentTimeRange w) + 1) (drop 24 (precipitation h))),
         currentTime_line = js_at (time h) 24\<rparr>"
    by (rule drawChart_config)
next
  show "requests (state_of (loadWeatherData w)) = requests w \<or>
    (\<exists>r. past_hours r = 24 \<and> requests (state_of (loadWeatherData w)) = requests w @ [r])"
    by (rule loadWeatherData_requests)
qed


theorem now_is_index_24_witness:
  "hourly sample_forecast = Some sample_hourly \<and>
   returns (updateCurrentWeather sample_forecast sample_world) \<and>
   weatherData sample_world = Some sample_forecast \<and>
   0 \<le> currentTimeRange sample_world \<and>
   returns (drawChart sample_world) \<and>
   displays (state_of (updateCurrentWeather sample_forecast sample_world)) ''currentTemp''
     (Celsius (Num 21)) \<and>
   map_option (future_temperature \<circ> config) (chart (state_of (drawChart sample_world))) =
     Some [\<lparr>pt_x = Some ''now'', pt_y = Num 21\<rparr>, \<lparr>pt_x = Some ''next'', pt_y = Num 22\<rparr>,
           \<lparr>pt_x = Some ''later'', pt_y = Num 23\<rparr>]"
proof -
  have a: "hourly sample_forecast = Some sample_hourly"
    by (simp add: sample_forecast_def)
  have b: "returns (updateCurrentWeather sample_forecast sample_world)"
    by code_simp
  have c: "weatherData sample_world = Some sample_forecast"
    by (simp add: sample_world_def)
  have d: "0 \<le> currentTimeRange sample_world"
    by (simp add: sample_world_def)
  have e: "returns (drawChart sample_world)"
    by code_simp
  have t: "js_num_at (temperature_2m sample_hourly) 24 = Num 21"
    by (simp add: sample_hourly_def js_num_at_def js_at_def nth_append)
  have r: "nat (currentTimeRange sample_world) + 1 = 25"
    by (simp add: sample_world_def)
  have f: "points (take 25 (drop 24 (time sample_hourly)))
             (take 25 (drop 24 (temperature_2m sample_hourly))) =
           [\<lparr>pt_x = Some ''now'', pt_y = Num 21\<rparr>, \<lparr>pt_x = Some ''next'', pt_y = Num 22\<rparr>,
            \<lparr>pt_x = Some ''later'', pt_y = Num 23\<rparr>]"
    by (simp add: sample_hourly_def points_def js_at_def upt_rec)
  note n = now_is_index_24 [of sample_forecast sample_hourly sample_world]
  have g: "displays (state_of (updateCurrentWeather sample_forecast sample_world)) ''currentTemp''
     (Celsius (js_num_at (temperature_2m sample_hourly) 24))"
    using n a b by blast
  have k: "map_option config (chart (state_of (drawChart sample_world))) = Some
        \<lparr>labels = take (25 + nat (currentTimeRange sample_world)) (time sample_hourly),
         past_temperature =
           points (take 25 (time sample_hourly)) (take 25 (temperature_2m sample_hourly)),
         future_temperature =
           points (take (nat (currentTimeRange sample_world) + 1) (drop 24 (time sample_hourly)))
             (take (nat (currentTimeRange sample_world) + 1)
                (drop 24 (temperature_2m sample_hourly))),
         past_precipitation =
           points (take 25 (time sample_hourly)) (take 25 (precipitation sample_hourly)),
         future_precipitation =
           points (take (nat (currentTimeRange sample_world) + 1) (drop 24 (time sample_hourly)))
             (take (nat (currentTimeRange sample_world) + 1)
                (drop 24 (precipitation sample_hourly))),
         currentTime_line = js_at (time sample_hourly) 24\<rparr>"
    using n a c d e by blast
  have m: "map_option (future_temperature \<circ> config) (chart (state_of (drawChart sample_world))) =
     Some [\<lparr>pt_x = Some ''now'', pt_y = Num 21\<rparr>, \<lparr>pt_x = Some ''next'', pt_y = Num 22\<rparr>,
           \<lparr>pt_x = Some ''later'', pt_y = Num 23\<rparr>]"
    using k unfolding r f by (cases "chart (state_of (drawChart sample_world))") auto
  show ?thesis
    using a b c d e g m unfolding t by simp
qed


lemma recompute_and_focus:
  "returns (focusElement 0 (updateFocusableElements w)) \<and>
   isDropdownOpen (state_of (focusElement 0 (updateFocusableElements w))) = isDropdownOpen w \<and>
   (focusableElements (state_of (focusElement 0 (updateFocusableElements w))) \<noteq> [] \<longrightarrow>
      currentFocusIndex (state_of (focusElement 0 (updateFocusableElements w))) = 0) \<and>
   (focusableElements (state_of (focusElement 0 (updateFocusableElements w))) = [] \<longrightarrow>
      currentFocusIndex (state_of (focusElement 0 (updateFocusableElements w)))
        = currentFocusIndex w)"
proof -
  have u: "isDropdownOpen (updateFocusableElements w) = isDropdownOpen w"
    "currentFocusIndex (updateFocusableElements w) = currentFocusIndex w"
    by (simp_all add: updateFocusableElements_def Let_def)
  obtain w1 where "focusElement 0 (updateFocusableElements w) = Normal w1"
    and "focusableElements w1 = focusableElements (updateFocusableElements w)"
    and "isDropdownOpen w1 = isDropdownOpen (updateFocusableElements w)"
    and "currentFocusIndex w1 =
           (if focusableElements (updateFocusableElements w) = []
            then currentFocusIndex (updateFocusableElements w)
            else max 0 (min 0 (int (length (focusableElements (updateFocusableElements w))) - 1)))"
    by (rule focusElement_Normal)
  then show ?thesis
    using u by auto
qed

lemma toggleCityDropdown_index:
  assumes "returns (toggleCityDropdown w)"
  shows "isDropdownOpen (state_of (toggleCityDropdown w)) = (\<not> isDropdownOpen w) \<and>
     (focusableElements (state_of (toggleCityDropdown w)) \<noteq> [] \<longrightarrow>
        currentFocusIndex (state_of (toggleCityDropdown w)) = 0) \<and>
     (focusableElements (state_of (toggleCityDropdown w)) = [] \<longrightarrow>
        currentFocusIndex (state_of (toggleCityDropdown w)) = currentFocusIndex w)"
proof -
  let ?f = "if isDropdownOpen w then classList_remove ''active'' else classList_add ''active''"
  let ?w1 = "w\<lparr>isDropdownOpen := \<not> isDropdownOpen w\<rparr>"
  have t: "toggleCityDropdown w =
      then_do (with_element ''cityDropdown'' ?f ?w1)
        (\<lambda>w2. focusElement 0 (updateFocusableElements w2))"
    by (simp add: toggleCityDropdown_def Let_def)
  then obtain w2 where w2: "with_element ''cityDropdown'' ?f ?w1 = Normal w2"
    and r: "toggleCityDropdown w = focusElement 0 (updateFocusableElements w2)"
    using assms by (cases "with_element ''cityDropdown'' ?f ?w1") simp_all
  have "nav w2 = nav ?w1"
    using nav_with_element [of "''cityDropdown''" ?f ?w1] w2 by simp
  then have "isDropdownOpen w2 = (\<not> isDropdownOpen w)" and "currentFocusIndex w2 = currentFocusIndex w"
    by (simp_all add: nav_def)
  then show ?thesis
    unfolding r using recompute_and_focus [of w2] by simp
qed

lemma closeDropdown_index:
  assumes "isDropdownOpen w" and "returns (closeDropdown w)"
  shows "\<not> isDropdownOpen (state_of (closeDropdown w)) \<and>
     (focusableElements (state_of (closeDropdown w)) \<noteq> [] \<longrightarrow>
        currentFocusIndex (state_of (closeDropdown w)) = 0) \<and>
     (focusableElements (state_of (closeDropdown w)) = [] \<longrightarrow>
        currentFocusIndex (state_of (closeDropdown w)) = currentFocusIndex w)"
proof -
  let ?w1 = "w\<lparr>isDropdownOpen := False\<rparr>"
  have t: "closeDropdown w =
      then_do (with_element ''cityDropdown'' (classList_remove ''active'') ?w1)
        (\<lambda>w2. focusElement 0 (updateFocusableElements w2))"
    using assms(1) by (simp add: closeDropdown_def)
  then obtain w2 where
    w2: "with_element ''cityDropdown'' (classList_remove ''active'') ?w1 = Normal w2"
    and r: "closeDropdown w = focusElement 0 (updateFocusableElements w2)"
    using assms(2)
    by (cases "with_element ''cityDropdown'' (classList_remove ''active'') ?w1") simp_all
  have "nav w2 = nav ?w1"
    using nav_with_element [of "''cityDropdown''" "classList_remove ''active''" ?w1] w2 by simp
  then have "\<not> isDropdownOpen w2" and "currentFocusIndex w2 = currentFocusIndex w"
    by (simp_all add: nav_def)
  then show ?thesis
    unfolding r using recompute_and_focus [of w2] by simp
qed

text \<open>
  Claim C4, as the code has it. A mode transition that returns (the dropdown element
  exists) flips NavigationMode and recomputes the FocusSet; if the recomputed FocusSet is
  not empty the FocusIndex is 0 afterwards, and if it is empty the FocusIndex keeps the
  value it had (\<open>focusElement\<close> returns at once on an empty FocusSet). This holds for
  \<open>toggleCityDropdown\<close> and for \<open>closeDropdown\<close> on an open dropdown. In particular,
  opening and then closing leaves NavigationMode Normal and, when the FocusSet then is
  not empty, FocusIndex 0.
\<close>

theorem mode_change_resets_index_unless_empty:
  "(returns (toggleCityDropdown w) \<longrightarrow>
      isDropdownOpen (state_of (toggleCityDropdown w)) = (\<not> isDropdownOpen w) \<and>
      (focusableElements (state_of (toggleCityDropdown w)) \<noteq> [] \<longrightarrow>
         currentFocusIndex (state_of (toggleCityDropdown w)) = 0) \<and>
      (focusableElements (state_of (toggleCityDropdown w)) = [] \<longrightarrow>
         currentFocusIndex (state_of (toggleCityDropdown w)) = currentFocusIndex w)) \<and>
   (isDropdownOpen w \<longrightarrow> returns (closeDropdown w) \<longrightarrow>
      \<not> isDropdownOpen (state_of (closeDropdown w)) \<and>
      (focusableElements (state_of (closeDropdown w)) \<noteq> [] \<longrightarrow>
         currentFocusIndex (state_of (closeDropdown w)) = 0) \<and>
      (focusableElements (state_of (closeDropdown w)) = [] \<longrightarrow>
         currentFocusIndex (state_of (closeDropdown w)) = currentFocusIndex w)) \<and>
   (\<not> isDropdownOpen w \<longrightarrow> returns (then_do (toggleCityDropdown w) toggleCityDropdown) \<longrightarrow>
      \<not> isDropdownOpen (state_of (then_do (toggleCityDropdown w) toggleCityDropdown)) \<and>
      (focusableElements (state_of (then_do (toggleCityDropdown w) toggleCityDropdown)) \<noteq> [] \<longrightarrow>
         currentFocusIndex (state_of (then_do (toggleCityDropdown w) toggleCityDropdown)) = 0))"
proof (intro conjI impI)
  assume "returns (toggleCityDropdown w)"
  note a = toggleCityDropdown_index [OF this]
  show "isDropdownOpen (state_of (toggleCityDropdown w)) = (\<not> isDropdownOpen w)"
    using a by simp
  show "currentFocusIndex (state_of (toggleCityDropdown w)) = 0"
    if "focusableElements (state_of (toggleCityDropdown w)) \<noteq> []"
    using a that by simp
  show "currentFocusIndex (state_of (toggleCityDropdown w)) = currentFocusIndex w"
    if "focusableElements (state_of (toggleCityDropdown w)) = []"
    using a that by simp
next
  assume "isDropdownOpen w" and "returns (closeDropdown w)"
  note b = closeDropdown_index [OF this]
  show "\<not> isDropdownOpen (state_of (closeDropdown w))"
    using b by simp
  show "currentFocusIndex (state_of (closeDropdown w)) = 0"
    if "focusableElements (state_of (closeDropdown w)) \<noteq> []"
    using b that by simp
  show "currentFocusIndex (state_of (closeDropdown w)) = currentFocusIndex w"
    if "focusableElements (state_of (closeDropdown w)) = []"
    using b that by simp
next
  assume n: "\<not> isDropdownOpen w"
    and r: "returns (then_do (toggleCityDropdown w) toggleCityDropdown)"
  then obtain wa where wa: "toggleCityDropdown w = Normal wa"
    and rb: "returns (toggleCityDropdown wa)"
    by (cases "toggleCityDropdown w") simp_all
  have oa: "isDropdownOpen wa"
    using toggleCityDropdown_index [of w] wa n by simp
  note c = toggleCityDropdown_index [OF rb]
  show "\<not> isDropdownOpen (state_of (then_do (toggleCityDropdown w) toggleCityDropdown))"
    using c oa by (simp add: wa)
  show "currentFocusIndex (state_of (then_do (toggleCityDropdown w) toggleCityDropdown)) = 0"
    if "focusableElements (state_of (then_do (toggleCityDropdown w) toggleCityDropdown)) \<noteq> []"
    using c that by (simp add: wa)
qed

theorem mode_change_resets_index_unless_empty_witness:
  "returns (toggleCityDropdown third_control_focused) \<and>
   focusableElements (state_of (toggleCityDropdown third_control_focused)) = [] \<and>
   currentFocusIndex (state_of (toggleCityDropdown third_control_focused)) = 2 \<and>
   isDropdownOpen (state_of (toggleCityDropdown third_control_focused)) \<and>
   returns (closeDropdown (state_of (toggleCityDropdown third_control_focused))) \<and>
   focusableElements (state_of (closeDropdown (state_of (toggleCityDropdown third_control_focused))))
     \<noteq> [] \<and>
   currentFocusIndex (state_of (closeDropdown (state_of (toggleCityDropdown third_control_focused))))
     = 0 \<and>
   \<not> isDropdownOpen third_control_focused \<and>
   returns (then_do (toggleCityDropdown third_control_focused) toggleCityDropdown) \<and>
   focusableElements
     (state_of (then_do (toggleCityDropdown third_control_focused) toggleCityDropdown)) \<noteq> [] \<and>
   currentFocusIndex
     (state_of (then_do (toggleCityDropdown third_control_focused) toggleCityDropdown)) = 0"
proof -
  let ?w = third_control_focused
  let ?o = "state_of (toggleCityDropdown third_control_focused)"
  have a: "returns (toggleCityDropdown ?w)" by code_simp
  have b: "focusableElements ?o = []" by code_simp
  have c: "currentFocusIndex ?w = 2" by code_simp
  have d: "\<not> isDropdownOpen ?w" by code_simp
  have e: "returns (closeDropdown ?o)" by code_simp
  have f: "focusableElements (state_of (closeDropdown ?o)) \<noteq> []" by code_simp
  have g: "returns (then_do (toggleCityDropdown ?w) toggleCityDropdown)" by code_simp
  have h: "focusableElements (state_of (then_do (toggleCityDropdown ?w) toggleCityDropdown)) \<noteq> []"
    by code_simp
  show ?thesis
    using mode_change_resets_index_unless_empty [of ?w]
      mode_change_resets_index_unless_empty [of ?o] a b c d e f g h
    by simp
qed

text \<open>
  Claim C4, as stated, fails. On the page whose dropdown holds no city, with the third
  control focused (a state reached by two presses of the right arrow), opening the
  dropdown is a mode transition that recomputes the FocusSet, to the empty list, and
  leaves FocusIndex at 2, not 0.
\<close>

theorem mode_change_keeps_index_on_empty_set:
  "reachable third_control_focused \<and>
   \<not> isDropdownOpen third_control_focused \<and>
   returns (toggleCityDropdown third_control_focused) \<and>
   isDropdownOpen (state_of (toggleCityDropdown third_control_focused)) \<and>
   focusableElements (state_of (toggleCityDropdown third_control_focused)) = [] \<and>
   currentFocusIndex (state_of (toggleCityDropdown third_control_focused)) = 2 \<and>
   currentFocusIndex (state_of (toggleCityDropdown third_control_focused)) \<noteq> 0"
proof -
  have r: "reachable third_control_focused"
    by (simp add: third_control_focused_def reachable.intros)
  have "\<not> isDropdownOpen third_control_focused"
    and "returns (toggleCityDropdown third_control_focused)"
    and "isDropdownOpen (state_of (toggleCityDropdown third_control_focused))"
    and "focusableElements (state_of (toggleCityDropdown third_control_focused)) = []"
    and "currentFocusIndex (state_of (toggleCityDropdown third_control_focused)) = 2"
    by code_simp+
  then show ?thesis using r by simp
qed


lemma getElementById_None:
  "getElementById d i = None \<longleftrightarrow> \<not> (\<exists>n<length d. el_id (d ! n) = i)"
  unfolding getElementById_def by (auto simp: find_None_iff)

lemma getElementById_first:
  "getElementById d i = Some n \<Longrightarrow> m < n \<Longrightarrow> el_id (d ! m) \<noteq> i"
  unfolding getElementById_def by (auto simp: find_Some_iff)

lemma keep_found: "map the (filter (\<lambda>el. el \<noteq> None) (map Some xs)) = xs"
  by (induction xs) simp_all

lemma overlay_focus_set:
  assumes "isDropdownOpen w"
  shows "focusableElements (updateFocusableElements w) =
           filter (\<lambda>n. ''city-option'' \<in> set (el_classes (document w ! n)))
             [0..<length (document w)]"
  using assms
  by (simp add: updateFocusableElements_def Let_def keep_found querySelectorAll_class_def)

lemma normal_focus_set:
  assumes "\<not> isDropdownOpen w"
  shows "focusableElements (updateFocusableElements w) =
           map the (filter (\<lambda>el. el \<noteq> None)
             [getElementById (document w) ''citySelector'',
              getElementById (document w) ''range24h'',
              getElementById (document w) ''range48h''])"
  using assms by (simp add: updateFocusableElements_def Let_def)

lemma normal_focus_set_ids:
  assumes "\<not> isDropdownOpen w"
  shows "map (\<lambda>n. el_id (document w ! n)) (focusableElements (updateFocusableElements w)) =
           filter (\<lambda>i. \<exists>n<length (document w). el_id (document w ! n) = i)
             [''citySelector'', ''range24h'', ''range48h'']"
proof -
  have a: "\<And>i. (\<exists>n<length (document w). el_id (document w ! n) = i) \<longleftrightarrow>
      getElementById (document w) i \<noteq> None"
    by (simp add: getElementById_None)
  have b: "\<And>i n. getElementById (document w) i = Some n \<Longrightarrow> el_id (document w ! n) = i"
    by (simp add: getElementById_Some)
  show ?thesis
    unfolding normal_focus_set [OF assms] a
    by (cases "getElementById (document w) ''citySelector''";
        cases "getElementById (document w) ''range24h''";
        cases "getElementById (document w) ''range48h''")
      (simp_all add: b)
qed

lemma focus_set_distinct: "distinct (focusableElements (updateFocusableElements w))"
proof (cases "isDropdownOpen w")
  case True
  then show ?thesis by (simp add: overlay_focus_set)
next
  case False
  have "distinct (map (\<lambda>n. el_id (document w ! n)) (focusableElements (updateFocusableElements w)))"
    unfolding normal_focus_set_ids [OF False] by (rule distinct_filter) simp
  then show ?thesis by (simp add: distinct_map)
qed

lemma focus_set_first:
  assumes "\<not> isDropdownOpen w" and "n \<in> set (focusableElements (updateFocusableElements w))"
  shows "n < length (document w)"
    and "m < n \<Longrightarrow> el_id (document w ! m) \<noteq> el_id (document w ! n)"
proof -
  obtain i where i: "getElementById (document w) i = Some n"
    using assms(2) unfolding normal_focus_set [OF assms(1)]
    by (auto split: if_splits)
  show "n < length (document w)"
    using getElementById_Some [OF i] by simp
  show "el_id (document w ! m) \<noteq> el_id (document w ! n)" if "m < n"
    using getElementById_Some [OF i] getElementById_first [OF i that] by simp
qed

text \<open>
  Claim C8, as the code has it. After a recomputation the FocusSet has no duplicates and
  only elements of the document. With the dropdown open it is, in document order, every
  element of class \<open>city-option\<close>. With the dropdown closed it holds, in this order, the
  first element with the id \<open>citySelector\<close>, \<open>range24h\<close> and \<open>range48h\<close>, each if the
  document has one. Nothing but a missing element is left out: an element that is
  disabled or hidden is in the FocusSet like any other.
\<close>

theorem focus_set_after_recomputation:
  "distinct (focusableElements (updateFocusableElements w)) \<and>
   (isDropdownOpen w \<longrightarrow>
      sorted_wrt (<) (focusableElements (updateFocusableElements w)) \<and>
      set (focusableElements (updateFocusableElements w)) =
        {n. n < length (document w) \<and> ''city-option'' \<in> set (el_classes (document w ! n))}) \<and>
   (\<not> isDropdownOpen w \<longrightarrow>
      map (\<lambda>n. el_id (document w ! n)) (focusableElements (updateFocusableElements w)) =
        filter (\<lambda>i. \<exists>n<length (document w). el_id (document w ! n) = i)
          [''citySelector'', ''range24h'', ''range48h''] \<and>
      (\<forall>n \<in> set (focusableElements (updateFocusableElements w)).
         n < length (document w) \<and>
         (\<forall>m<n. el_id (document w ! m) \<noteq> el_id (document w ! n))))"
proof (intro conjI impI ballI allI)
  show "distinct (focusableElements (updateFocusableElements w))"
    by (rule focus_set_distinct)
next
  assume o: "isDropdownOpen w"
  show "sorted_wrt (<) (focusableElements (updateFocusableElements w))"
    unfolding overlay_focus_set [OF o] by (rule sorted_wrt_filter) simp
  show "set (focusableElements (updateFocusableElements w)) =
        {n. n < length (document w) \<and> ''city-option'' \<in> set (el_classes (document w ! n))}"
    unfolding overlay_focus_set [OF o] by auto
next
  assume c: "\<not> isDropdownOpen w"
  show "map (\<lambda>n. el_id (document w ! n)) (focusableElements (updateFocusableElements w)) =
        filter (\<lambda>i. \<exists>n<length (document w). el_id (document w ! n) = i)
          [''citySelector'', ''range24h'', ''range48h'']"
    by (rule normal_focus_set_ids [OF c])
  fix n m
  assume "n \<in> set (focusableElements (updateFocusableElements w))"
  then show "n < length (document w)"
    and "m < n \<Longrightarrow> el_id (document w ! m) \<noteq> el_id (document w ! n)"
    by (rule focus_set_first [OF c])+
qed

theorem focus_set_after_recomputation_witness:
  "\<not> isDropdownOpen (page disabled_page empty_storage) \<and>
   focusableElements (updateFocusableElements (page disabled_page empty_storage)) = [0, 1, 2] \<and>
   isDropdownOpen ((page dropdown_page empty_storage)\<lparr>isDropdownOpen := True\<rparr>) \<and>
   focusableElements
     (updateFocusableElements ((page dropdown_page empty_storage)\<lparr>isDropdownOpen := True\<rparr>))
     = [2, 3] \<and>
   sorted_wrt (<) (focusableElements
     (updateFocusableElements ((page dropdown_page empty_storage)\<lparr>isDropdownOpen := True\<rparr>))) \<and>
   map (\<lambda>n. el_id (document (page disabled_page empty_storage) ! n))
     (focusableElements (updateFocusableElements (page disabled_page empty_storage))) =
   filter (\<lambda>i. \<exists>n<length (document (page disabled_page empty_storage)).
                  el_id (document (page disabled_page empty_storage) ! n) = i)
     [''citySelector'', ''range24h'', ''range48h'']"
proof -
  have a: "\<not> isDropdownOpen (page disabled_page empty_storage)"
    by (simp add: page_def)
  have b: "focusableElements (updateFocusableElements (page disabled_page empty_storage)) = [0, 1, 2]"
    by code_simp
  have c: "isDropdownOpen ((page dropdown_page empty_storage)\<lparr>isDropdownOpen := True\<rparr>)"
    by simp
  have d: "focusableElements
     (updateFocusableElements ((page dropdown_page empty_storage)\<lparr>isDropdownOpen := True\<rparr>))
     = [2, 3]"
    by code_simp
  show ?thesis
    using focus_set_after_recomputation [of "page disabled_page empty_storage"]
      focus_set_after_recomputation
        [of "(page dropdown_page empty_storage)\<lparr>isDropdownOpen := True\<rparr>"] a b c d
    by simp
qed

text \<open>
  Claim C8, as stated, fails. On the page whose 48 hour button is disabled, the FocusSet
  the constructor computes is the three controls, the disabled one among them: position
  2 of the document is in the FocusSet and is not interactable.
\<close>

theorem focus_set_holds_disabled_element:
  "focusableElements (state_of (constructor disabled_page empty_storage)) = [0, 1, 2] \<and>
   el_id (document (state_of (constructor disabled_page empty_storage)) ! 2) = ''range48h'' \<and>
   \<not> interactable (document (state_of (constructor disabled_page empty_storage)) ! 2)"
  by code_simp

end
